theory Spec2Isabelle
  imports Main "HOL-Library.Word"
begin

section \<open>Errors\<close>

text \<open>
  Every way in which the modelled code can stop early is a value of one type:
  a \<^verbatim>\<open>static_assert\<close> of the source that does not hold for the template arguments,
  a read through a null pointer, a visitor tree whose children or arguments do not fit
  its node, an out-of-range tensor dimension, and a CUTLASS status other than success
  reported through \<^verbatim>\<open>CUTLASS_CHECK\<close>.
\<close>

datatype Status =
    kSuccess
  | kErrorMisalignedOperand
  | kErrorInvalidProblem
  | kErrorNotSupported
  | kErrorWorkspaceNull
  | kErrorInternal

datatype error =
    StaticAssertFailed
  | NullPointer
  | IllFormed
  | UnsupportedCompute
  | IndexError
  | CutlassError Status

definition bindE :: "error + 'a \<Rightarrow> ('a \<Rightarrow> error + 'b) \<Rightarrow> error + 'b" where
  "bindE r f = (case r of Inl err \<Rightarrow> Inl err | Inr x \<Rightarrow> f x)"

section \<open>Element types, values and arithmetic\<close>

text \<open>
  The element types that occur in the epilogue templates of
  \<^verbatim>\<open>sparse_scaled_mm_c3x.cuh\<close>: \<^verbatim>\<open>float\<close>, \<^verbatim>\<open>int32_t\<close> and the template
  parameter \<^verbatim>\<open>ElementD\<close> (the output element type). Values of type \<^verbatim>\<open>float\<close> and
  of type \<^verbatim>\<open>ElementD\<close> are kept abstract (type variables \<open>'f\<close> and \<open>'d\<close>);
  \<^verbatim>\<open>int32_t\<close> is a 32-bit word, whose arithmetic wraps around.
\<close>

datatype element = float | int32_t | ElementD

datatype ('f, 'd) val = VFloat 'f | VInt32 "32 word" | VElementD 'd

datatype FloatRoundStyle =
    round_indeterminate
  | round_toward_zero
  | round_to_nearest

text \<open>
  The floating-point operations and the numeric conversions are parameters of the model:
  nothing is assumed about them, so every theorem holds for whatever the hardware
  computes. Each takes the rounding style that the source passes to \<^verbatim>\<open>Sm90Compute\<close>.
\<close>

record ('f, 'd) numerics =
  f_multiplies :: "FloatRoundStyle \<Rightarrow> 'f \<Rightarrow> 'f \<Rightarrow> 'f"
  f_minus :: "FloatRoundStyle \<Rightarrow> 'f \<Rightarrow> 'f \<Rightarrow> 'f"
  f_multiply_add :: "FloatRoundStyle \<Rightarrow> 'f \<Rightarrow> 'f \<Rightarrow> 'f \<Rightarrow> 'f"
  f_zero :: "'f"
  d_zero :: "'d"
  int32_to_float :: "FloatRoundStyle \<Rightarrow> 32 word \<Rightarrow> 'f"
  d_to_float :: "FloatRoundStyle \<Rightarrow> 'd \<Rightarrow> 'f"
  float_to_int32 :: "FloatRoundStyle \<Rightarrow> 'f \<Rightarrow> 32 word"
  d_to_int32 :: "FloatRoundStyle \<Rightarrow> 'd \<Rightarrow> 32 word"
  float_to_d :: "FloatRoundStyle \<Rightarrow> 'f \<Rightarrow> 'd"
  int32_to_d :: "FloatRoundStyle \<Rightarrow> 32 word \<Rightarrow> 'd"

text \<open>The numeric converter to each of the three element types; the identity on its own type.\<close>

fun as_float :: "('f, 'd) numerics \<Rightarrow> FloatRoundStyle \<Rightarrow> ('f, 'd) val \<Rightarrow> 'f" where
  "as_float ops r (VFloat x) = x"
| "as_float ops r (VInt32 w) = int32_to_float ops r w"
| "as_float ops r (VElementD d) = d_to_float ops r d"

fun as_int32 :: "('f, 'd) numerics \<Rightarrow> FloatRoundStyle \<Rightarrow> ('f, 'd) val \<Rightarrow> 32 word" where
  "as_int32 ops r (VFloat x) = float_to_int32 ops r x"
| "as_int32 ops r (VInt32 w) = w"
| "as_int32 ops r (VElementD d) = d_to_int32 ops r d"

fun as_d :: "('f, 'd) numerics \<Rightarrow> FloatRoundStyle \<Rightarrow> ('f, 'd) val \<Rightarrow> 'd" where
  "as_d ops r (VFloat x) = float_to_d ops r x"
| "as_d ops r (VInt32 w) = int32_to_d ops r w"
| "as_d ops r (VElementD d) = d"

fun convert ::
  "('f, 'd) numerics \<Rightarrow> FloatRoundStyle \<Rightarrow> element \<Rightarrow> ('f, 'd) val \<Rightarrow> ('f, 'd) val" where
  "convert ops r float v = VFloat (as_float ops r v)"
| "convert ops r int32_t v = VInt32 (as_int32 ops r v)"
| "convert ops r ElementD v = VElementD (as_d ops r v)"

fun zero :: "('f, 'd) numerics \<Rightarrow> element \<Rightarrow> ('f, 'd) val" where
  "zero ops float = VFloat (f_zero ops)"
| "zero ops int32_t = VInt32 0"
| "zero ops ElementD = VElementD (d_zero ops)"

text \<open>
  The three function objects the source hands to \<^verbatim>\<open>Sm90Compute\<close>:
  \<^verbatim>\<open>cutlass::multiplies\<close>, \<^verbatim>\<open>cutlass::minus\<close> and \<^verbatim>\<open>cutlass::multiply_add\<close>,
  applied to operands of the compute type. On \<^verbatim>\<open>int32_t\<close> they are the word
  operations; on \<^verbatim>\<open>float\<close> they are the parameters above.
\<close>

datatype compute_fn = cutlass_multiplies | cutlass_minus | cutlass_multiply_add

fun apply_float ::
  "('f, 'd) numerics \<Rightarrow> FloatRoundStyle \<Rightarrow> compute_fn \<Rightarrow> 'f list \<Rightarrow> error + 'f" where
  "apply_float ops r cutlass_multiplies [a, b] = Inr (f_multiplies ops r a b)"
| "apply_float ops r cutlass_minus [a, b] = Inr (f_minus ops r a b)"
| "apply_float ops r cutlass_multiply_add [a, b, c] = Inr (f_multiply_add ops r a b c)"
| "apply_float ops r _ _ = Inl IllFormed"

fun apply_int32 :: "compute_fn \<Rightarrow> 32 word list \<Rightarrow> error + 32 word" where
  "apply_int32 cutlass_multiplies [a, b] = Inr (a * b)"
| "apply_int32 cutlass_minus [a, b] = Inr (a - b)"
| "apply_int32 cutlass_multiply_add [a, b, c] = Inr (a * b + c)"
| "apply_int32 _ _ = Inl IllFormed"

section \<open>Device memory, pointers and tensors\<close>

text \<open>
  Device memory is split by element type, so that a \<^verbatim>\<open>float\<close> load never reads an
  \<^verbatim>\<open>int32_t\<close> cell; two tensors of the same element type may overlap. A pointer is an
  address or \<^verbatim>\<open>nullptr\<close> (\<open>None\<close>).
\<close>

record ('f, 'd) memory =
  mem_float :: "int \<Rightarrow> 'f"
  mem_int32 :: "int \<Rightarrow> 32 word"
  mem_d :: "int \<Rightarrow> 'd"

type_synonym ptr = "int option"

fun load :: "('f, 'd) memory \<Rightarrow> element \<Rightarrow> int \<Rightarrow> ('f, 'd) val" where
  "load mem float a = VFloat (mem_float mem a)"
| "load mem int32_t a = VInt32 (mem_int32 mem a)"
| "load mem ElementD a = VElementD (mem_d mem a)"

text \<open>
  What the source uses of a \<^verbatim>\<open>torch::Tensor\<close>: its extents, its strides, its data
  pointer and its device. \<open>size_at t d\<close> is \<^verbatim>\<open>t.size(d)\<close> and \<open>stride_at t d\<close> is
  \<^verbatim>\<open>t.stride(d)\<close>, which raise for a dimension the tensor does not have.
\<close>

record tensor =
  sizes :: "int list"
  strides :: "int list"
  data_ptr :: ptr
  device :: nat

definition numel :: "tensor \<Rightarrow> int" where
  "numel t = prod_list (sizes t)"

definition size_at :: "tensor \<Rightarrow> nat \<Rightarrow> error + int" where
  "size_at t d = (if d < length (sizes t) then Inr (sizes t ! d) else Inl IndexError)"

definition stride_at :: "tensor \<Rightarrow> nat \<Rightarrow> error + int" where
  "stride_at t d = (if d < length (strides t) then Inr (strides t ! d) else Inl IndexError)"

section \<open>Epilogue visitor trees\<close>

text \<open>
  An epilogue is a type-level expression tree (\<^verbatim>\<open>Sm90EVT<NodeOp, Children...>\<close>). Its
  leaves fetch the accumulator or load an auxiliary operand; its inner nodes are
  \<^verbatim>\<open>Sm90Compute<Fn, ElementOutput, ElementCompute, RoundStyle>\<close>. Of the template
  arguments of the load descriptors the model keeps the element type, the stride over
  (M, N, L) and the \<^verbatim>\<open>EnableNullPtr\<close> flag; the stage count (0), the tile shape and the
  alignment do not change the value loaded.
\<close>

type_synonym Stride = "nat \<times> nat \<times> nat"

datatype compute = Sm90Compute compute_fn element element FloatRoundStyle

datatype evt =
    Sm90AccFetch
  | Sm90ColOrScalarBroadcast element Stride
  | Sm90RowOrScalarBroadcast element Stride
  | Sm90ColBroadcast element Stride bool
  | Sm90RowBroadcast element Stride bool
  | Sm90EVT compute "evt list"

text \<open>
  The run-time arguments mirror the tree. \<open>NoArgs\<close> is the empty initialiser
  \<^verbatim>\<open>{}\<close>; \<open>BroadcastArgs p v\<close> is \<^verbatim>\<open>Arguments{data_ptr, numel != 1}\<close>;
  \<open>VecArgs p\<close> is \<^verbatim>\<open>Arguments{data_ptr}\<close>; \<open>EVTArgs\<close> is the brace-initialised
  argument tuple of an \<^verbatim>\<open>Sm90EVT\<close>, one entry for each child, trailing entries left out
  being value-initialised.
\<close>

datatype arguments =
    NoArgs
  | BroadcastArgs ptr bool
  | VecArgs ptr
  | EVTArgs "arguments list"

definition crd2idx :: "nat \<times> nat \<times> nat \<Rightarrow> Stride \<Rightarrow> int" where
  "crd2idx c s =
     (case c of (m, n, l) \<Rightarrow> case s of (sM, sN, sL) \<Rightarrow> int (m * sM + n * sN + l * sL))"

text \<open>
  Modelled from the spec: the scalar-or-vector loaders \<^verbatim>\<open>Sm90ColOrScalarBroadcast\<close> and
  \<^verbatim>\<open>Sm90RowOrScalarBroadcast\<close> come from \<^verbatim>\<open>util/broadcast_load_epilogue_c3x.hpp\<close>,
  which is not part of the source at hand. By spec 3 and 4.1 such a loader reads one
  shared value when its flag is off (a scalar) and one value for each row, or for each
  column, when it is on (a vector); which of the two indices counts is told by the stride.
  A read through a null pointer is the error \<open>NullPointer\<close>.
\<close>

definition load_scalar_or_vector ::
  "('f, 'd) memory \<Rightarrow> element \<Rightarrow> Stride \<Rightarrow> ptr \<Rightarrow> bool \<Rightarrow> nat \<Rightarrow> nat \<Rightarrow> error + ('f, 'd) val" where
  "load_scalar_or_vector mem T s p is_vector m n =
     (case p of
        None \<Rightarrow> Inl NullPointer
      | Some a \<Rightarrow> Inr (load mem T (a + (if is_vector then crd2idx (m, n, 0) s else 0))))"

text \<open>
  Modelled from the spec: the vector loaders \<^verbatim>\<open>Sm90ColBroadcast\<close> and
  \<^verbatim>\<open>Sm90RowBroadcast\<close> are templates of CUTLASS, which is not part of the source at hand
  either. They read one value for each row, or for each column (spec 4.1). With
  \<^verbatim>\<open>EnableNullPtr\<close> a null pointer stands for the constant 0, as the comment on the
  second overload of \<^verbatim>\<open>args_from_tensor\<close> says; without it a null pointer is read
  through, which is the error \<open>NullPointer\<close>.
\<close>

definition load_vector ::
  "('f, 'd) numerics \<Rightarrow> ('f, 'd) memory \<Rightarrow> element \<Rightarrow> Stride \<Rightarrow> bool \<Rightarrow> ptr \<Rightarrow> nat \<Rightarrow> nat
     \<Rightarrow> error + ('f, 'd) val" where
  "load_vector ops mem T s EnableNullPtr p m n =
     (case p of
        None \<Rightarrow> if EnableNullPtr then Inr (zero ops T) else Inl NullPointer
      | Some a \<Rightarrow> Inr (load mem T (a + crd2idx (m, n, 0) s)))"

text \<open>
  Modelled from the spec: \<^verbatim>\<open>Sm90Compute\<close> is a template of CUTLASS as well. It
  converts each child's value to the compute type, applies the
  function there with the given rounding style, and converts the result to the output
  type (spec 4.1: the subtraction in the accumulator's type, the products in floating
  point with round-to-nearest, the final value cast to the output element type). The
  comments of the source read the nodes in the same way:
  \<^verbatim>\<open>Sm90Compute<cutlass::minus, float, int32_t, ...>\<close> over the children
  \<^verbatim>\<open>Accum, AzpWithAdj\<close> is "float(accum - azp_adj), both operands are int32_t". The
  source computes in \<^verbatim>\<open>float\<close> and in \<^verbatim>\<open>int32_t\<close> only; a node that computes in
  \<^verbatim>\<open>ElementD\<close> is outside the model.
\<close>

fun sm90_compute ::
  "('f, 'd) numerics \<Rightarrow> compute \<Rightarrow> ('f, 'd) val list \<Rightarrow> error + ('f, 'd) val" where
  "sm90_compute ops (Sm90Compute fn ElementOutput float r) vs =
     bindE (apply_float ops r fn (map (as_float ops r) vs))
       (\<lambda>x. Inr (convert ops r ElementOutput (VFloat x)))"
| "sm90_compute ops (Sm90Compute fn ElementOutput int32_t r) vs =
     bindE (apply_int32 fn (map (as_int32 ops r) vs))
       (\<lambda>x. Inr (convert ops r ElementOutput (VInt32 x)))"
| "sm90_compute ops (Sm90Compute fn ElementOutput ElementD r) vs = Inl UnsupportedCompute"

text \<open>
  Modelled from the spec: \<^verbatim>\<open>Sm90EVT\<close> is a template of CUTLASS as well. The value of a
  tree at output coordinate \<open>(m, n)\<close>, for the accumulator \<open>acc\<close> of that element: the
  children are visited from left to right and the node is applied to their values in that
  order, so that \<^verbatim>\<open>Sm90EVT<ComputeAzp, Azp, AzpAdj>\<close> is "azp * azp_adj" and
  \<^verbatim>\<open>Sm90EVT<ComputeAcc, Accum, EVTComputeAzp>\<close> is "float(accum - azp*azp_adj)", as the
  comments of the source say. An argument tuple shorter than the list of children stands
  for one filled up with empty initialisers.
\<close>

fun visit ::
  "('f, 'd) numerics \<Rightarrow> ('f, 'd) memory \<Rightarrow> ('f, 'd) val \<Rightarrow> nat \<Rightarrow> nat \<Rightarrow> evt \<Rightarrow> arguments
     \<Rightarrow> error + ('f, 'd) val"
and visit_children ::
  "('f, 'd) numerics \<Rightarrow> ('f, 'd) memory \<Rightarrow> ('f, 'd) val \<Rightarrow> nat \<Rightarrow> nat \<Rightarrow> evt list
     \<Rightarrow> arguments list \<Rightarrow> error + ('f, 'd) val list" where
  "visit ops mem acc m n Sm90AccFetch NoArgs = Inr acc"
| "visit ops mem acc m n (Sm90ColOrScalarBroadcast T s) (BroadcastArgs p v) =
     load_scalar_or_vector mem T s p v m n"
| "visit ops mem acc m n (Sm90RowOrScalarBroadcast T s) (BroadcastArgs p v) =
     load_scalar_or_vector mem T s p v m n"
| "visit ops mem acc m n (Sm90ColBroadcast T s EnableNullPtr) (VecArgs p) =
     load_vector ops mem T s EnableNullPtr p m n"
| "visit ops mem acc m n (Sm90RowBroadcast T s EnableNullPtr) (VecArgs p) =
     load_vector ops mem T s EnableNullPtr p m n"
| "visit ops mem acc m n (Sm90EVT node children) (EVTArgs child_args) =
     bindE (visit_children ops mem acc m n children child_args) (sm90_compute ops node)"
| "visit ops mem acc m n _ _ = Inl IllFormed"
| "visit_children ops mem acc m n [] [] = Inr []"
| "visit_children ops mem acc m n (t # ts) (a # as) =
     bindE (visit ops mem acc m n t a)
       (\<lambda>v. bindE (visit_children ops mem acc m n ts as) (\<lambda>vs. Inr (v # vs)))"
| "visit_children ops mem acc m n (t # ts) [] =
     bindE (visit ops mem acc m n t NoArgs)
       (\<lambda>v. bindE (visit_children ops mem acc m n ts []) (\<lambda>vs. Inr (v # vs)))"
| "visit_children ops mem acc m n [] (a # as) = Inl IllFormed"

section \<open>The common load descriptors: \<^verbatim>\<open>ScaledEpilogueBase\<close>\<close>

definition ColOrScalarLoad :: "element \<Rightarrow> evt" where
  "ColOrScalarLoad T = Sm90ColOrScalarBroadcast T (1, 0, 0)"

definition RowOrScalarLoad :: "element \<Rightarrow> evt" where
  "RowOrScalarLoad T = Sm90RowOrScalarBroadcast T (0, 1, 0)"

definition ColLoad :: "element \<Rightarrow> bool \<Rightarrow> evt" where
  "ColLoad T EnableNullPtr = Sm90ColBroadcast T (1, 0, 0) EnableNullPtr"

definition RowLoad :: "element \<Rightarrow> bool \<Rightarrow> evt" where
  "RowLoad T EnableNullPtr = Sm90RowBroadcast T (0, 1, 0) EnableNullPtr"

text \<open>
  \<^verbatim>\<open>args_from_tensor<Descriptor, T>(torch::Tensor const&)\<close>: for a scalar-or-vector
  descriptor the flag is \<^verbatim>\<open>tensor.numel() != 1\<close>; otherwise the descriptor must not be
  one with \<^verbatim>\<open>EnableNullPtr\<close> (the \<^verbatim>\<open>static_assert\<close>).
\<close>

definition args_from_tensor :: "evt \<Rightarrow> element \<Rightarrow> tensor \<Rightarrow> error + arguments" where
  "args_from_tensor Descriptor T t =
     (if Descriptor = ColOrScalarLoad T \<or> Descriptor = RowOrScalarLoad T
      then Inr (BroadcastArgs (data_ptr t) (numel t \<noteq> 1))
      else if \<not> (Descriptor \<noteq> ColLoad T True \<and> Descriptor \<noteq> RowLoad T True)
      then Inl StaticAssertFailed
      else Inr (VecArgs (data_ptr t)))"

text \<open>
  \<^verbatim>\<open>args_from_tensor<Descriptor, T>(c10::optional<torch::Tensor> const&)\<close>: the overload
  for a tensor that may be absent, in which case a null pointer is passed. The descriptor
  must be one with \<^verbatim>\<open>EnableNullPtr\<close>.
\<close>

definition args_from_optional_tensor ::
  "evt \<Rightarrow> element \<Rightarrow> tensor option \<Rightarrow> error + arguments" where
  "args_from_optional_tensor Descriptor T t =
     (let p = (case t of Some t' \<Rightarrow> data_ptr t' | None \<Rightarrow> None)
      in if Descriptor = ColLoad T True \<or> Descriptor = RowLoad T True
         then Inr (VecArgs p)
         else Inl StaticAssertFailed)"

section \<open>The four epilogues\<close>

text \<open>
  As the header of the source says, an epilogue has a public type \<^verbatim>\<open>EVTCompute\<close> and a
  static function \<^verbatim>\<open>prepare_args\<close> that builds its arguments; \<open>'p\<close> is the tuple of
  parameters \<^verbatim>\<open>prepare_args\<close> takes. The template parameters of the four epilogues stay
  symbolic: \<^verbatim>\<open>ElementD\<close> is an element type of its own, the type of the accumulator is
  that of the value fetched, and of \<^verbatim>\<open>EpilogueDescriptor\<close> only the tile shape is used,
  which the model of the loaders leaves out.
\<close>

record 'p epilogue =
  EVTCompute :: evt
  prepare_args :: "'p \<Rightarrow> error + arguments"

definition ScaledEpilogue :: "(tensor \<times> tensor) epilogue" where
  "ScaledEpilogue =
     (let Accum = Sm90AccFetch;
          ScaleA = ColOrScalarLoad float;
          ScaleB = RowOrScalarLoad float;
          Compute0 = Sm90Compute cutlass_multiplies float float round_to_nearest;
          EVTCompute0 = Sm90EVT Compute0 [ScaleB, Accum];
          Compute1 = Sm90Compute cutlass_multiplies ElementD float round_to_nearest
      in \<lparr>EVTCompute = Sm90EVT Compute1 [ScaleA, EVTCompute0],
          prepare_args = (\<lambda>(a_scales, b_scales).
            bindE (args_from_tensor ScaleA float a_scales) (\<lambda>a_args.
            bindE (args_from_tensor ScaleB float b_scales) (\<lambda>b_args.
            let evt0_args = EVTArgs [b_args]
            in Inr (EVTArgs [a_args, evt0_args]))))\<rparr>)"

definition ScaledEpilogueBias :: "(tensor \<times> tensor \<times> tensor) epilogue" where
  "ScaledEpilogueBias =
     (let Accum = Sm90AccFetch;
          ScaleA = ColOrScalarLoad float;
          ScaleB = RowOrScalarLoad float;
          Bias = RowLoad ElementD False;
          Compute0 = Sm90Compute cutlass_multiplies float float round_to_nearest;
          EVTCompute0 = Sm90EVT Compute0 [ScaleB, Accum];
          Compute1 = Sm90Compute cutlass_multiply_add ElementD float round_to_nearest
      in \<lparr>EVTCompute = Sm90EVT Compute1 [ScaleA, EVTCompute0, Bias],
          prepare_args = (\<lambda>(a_scales, b_scales, bias).
            bindE (args_from_tensor ScaleA float a_scales) (\<lambda>a_args.
            bindE (args_from_tensor ScaleB float b_scales) (\<lambda>b_args.
            bindE (args_from_tensor Bias ElementD bias) (\<lambda>bias_args.
            let evt0_args = EVTArgs [b_args]
            in Inr (EVTArgs [a_args, evt0_args, bias_args])))))\<rparr>)"

definition ScaledEpilogueBiasAzp ::
  "(tensor \<times> tensor \<times> tensor \<times> tensor option) epilogue" where
  "ScaledEpilogueBiasAzp =
     (let Accum = Sm90AccFetch;
          ScaleA = ColOrScalarLoad float;
          ScaleB = RowOrScalarLoad float;
          Bias = RowLoad ElementD True;
          AzpWithAdj = RowLoad int32_t False;
          ComputeAzp = Sm90Compute cutlass_minus float int32_t round_to_nearest;
          EVTComputeAzp = Sm90EVT ComputeAzp [Accum, AzpWithAdj];
          ComputeScaleB = Sm90Compute cutlass_multiplies float float round_to_nearest;
          EVTComputeScaleB = Sm90EVT ComputeScaleB [ScaleB, EVTComputeAzp];
          ComputeScaleBiasA = Sm90Compute cutlass_multiply_add ElementD float round_to_nearest
      in \<lparr>EVTCompute = Sm90EVT ComputeScaleBiasA [ScaleA, EVTComputeScaleB, Bias],
          prepare_args = (\<lambda>(a_scales, b_scales, azp_adj, bias).
            bindE (args_from_tensor ScaleA float a_scales) (\<lambda>a_args.
            bindE (args_from_tensor ScaleB float b_scales) (\<lambda>b_args.
            bindE (args_from_optional_tensor Bias ElementD bias) (\<lambda>bias_args.
            bindE (args_from_tensor AzpWithAdj int32_t azp_adj) (\<lambda>azp_adj_args.
            let evt_azp_args = EVTArgs [NoArgs, azp_adj_args];
                evt_scale_b_args = EVTArgs [b_args, evt_azp_args]
            in Inr (EVTArgs [a_args, evt_scale_b_args, bias_args]))))))\<rparr>)"

definition ScaledEpilogueBiasAzpToken ::
  "(tensor \<times> tensor \<times> tensor \<times> tensor \<times> tensor option) epilogue" where
  "ScaledEpilogueBiasAzpToken =
     (let Accum = Sm90AccFetch;
          ScaleA = ColOrScalarLoad float;
          ScaleB = RowOrScalarLoad float;
          Bias = RowLoad ElementD True;
          Azp = ColLoad int32_t False;
          AzpAdj = RowLoad int32_t False;
          ComputeAzp = Sm90Compute cutlass_multiplies int32_t int32_t round_to_nearest;
          EVTComputeAzp = Sm90EVT ComputeAzp [Azp, AzpAdj];
          ComputeAcc = Sm90Compute cutlass_minus float int32_t round_to_nearest;
          EVTComputeAcc = Sm90EVT ComputeAcc [Accum, EVTComputeAzp];
          ComputeScaleB = Sm90Compute cutlass_multiplies float float round_to_nearest;
          EVTComputeScaleB = Sm90EVT ComputeScaleB [ScaleB, EVTComputeAcc];
          ComputeScaleBiasA = Sm90Compute cutlass_multiply_add ElementD float round_to_nearest
      in \<lparr>EVTCompute = Sm90EVT ComputeScaleBiasA [ScaleA, EVTComputeScaleB, Bias],
          prepare_args = (\<lambda>(a_scales, b_scales, azp_adj, azp, bias).
            bindE (args_from_tensor ScaleA float a_scales) (\<lambda>a_args.
            bindE (args_from_tensor ScaleB float b_scales) (\<lambda>b_args.
            bindE (args_from_optional_tensor Bias ElementD bias) (\<lambda>bias_args.
            bindE (args_from_tensor Azp int32_t azp) (\<lambda>azp_args.
            bindE (args_from_tensor AzpAdj int32_t azp_adj) (\<lambda>azp_adj_args.
            let evt_azp_args = EVTArgs [azp_args, azp_adj_args];
                evt_acc_args = EVTArgs [NoArgs, evt_azp_args];
                evt_scale_b_args = EVTArgs [b_args, evt_acc_args]
            in Inr (EVTArgs [a_args, evt_scale_b_args, bias_args])))))))\<rparr>)"

text \<open>
  The value the fused kernel computes for output element \<open>(i, j)\<close> from that element's
  accumulator: the arguments are prepared on the host, the tree is visited on the device.
\<close>

definition epilogue_output ::
  "('f, 'd) numerics \<Rightarrow> 'p epilogue \<Rightarrow> 'p \<Rightarrow> ('f, 'd) memory \<Rightarrow> ('f, 'd) val \<Rightarrow> nat \<Rightarrow> nat
     \<Rightarrow> error + ('f, 'd) val" where
  "epilogue_output ops Epilogue params mem acc i j =
     bindE (prepare_args Epilogue params)
       (\<lambda>args. visit ops mem acc i j (EVTCompute Epilogue) args)"

section \<open>The kernel assembly: \<^verbatim>\<open>cutlass_3x_gemm\<close> and the execution guard\<close>

datatype scalar_type = int8_t | float_e4m3_t | half_t | bfloat16_t

datatype KernelSchedule =
    KernelTmaWarpSpecialized
  | KernelTmaWarpSpecializedPingpong
  | KernelTmaWarpSpecializedCooperative
  | KernelTmaWarpSpecializedPingpongFP8FastAccum
  | KernelTmaWarpSpecializedCooperativeFP8FastAccum

datatype EpilogueSchedule = TmaWarpSpecialized | TmaWarpSpecializedCooperative

datatype TileScheduler = PersistentScheduler | StreamKScheduler

datatype GemmUniversalMode = kGemm | kGemmSplitKParallel | kBatched | kArray

text \<open>
  An instance of the template \<^verbatim>\<open>cutlass_3x_gemm\<close> is the record of its template
  arguments; the two defaulted ones (\<^verbatim>\<open>TileSchedule\<close>, \<^verbatim>\<open>Mode\<close>) are written out.
  A member \<^verbatim>\<open>Gemm::X\<close> that would clash with another name is written \<open>Gemm_X\<close>.
\<close>

record 'p cutlass_3x_gemm =
  Gemm_ElementAB :: scalar_type
  Gemm_ElementD :: scalar_type
  Gemm_Epilogue :: "'p epilogue"
  TileShape :: "nat \<times> nat \<times> nat"
  ClusterShape :: "nat \<times> nat \<times> nat"
  KernelSchedule :: KernelSchedule
  EpilogueSchedule :: EpilogueSchedule
  AccType :: element
  TileSchedule :: TileScheduler
  Gemm_Mode :: GemmUniversalMode

text \<open>\<^verbatim>\<open>using ElementC = void\<close>: no instance has a source operand C.\<close>

definition Gemm_ElementC :: "'p cutlass_3x_gemm \<Rightarrow> element option" where
  "Gemm_ElementC Gemm = None"

text \<open>
  \<^verbatim>\<open>enable_sm90_or_later<Kernel>::operator()\<close>. \<open>CUDA_ARCH\<close> is the value of the
  macro \<^verbatim>\<open>__CUDA_ARCH__\<close> in the compilation that produced the device code, \<open>None\<close>
  when the macro is not defined. A kernel takes its arguments and the device state and
  returns the new state, or an error.
\<close>

definition enable_sm90_or_later ::
  "nat option \<Rightarrow> ('a \<Rightarrow> 's \<Rightarrow> error + 's) \<Rightarrow> 'a \<Rightarrow> 's \<Rightarrow> error + 's" where
  "enable_sm90_or_later CUDA_ARCH Kernel args st =
     (case CUDA_ARCH of
        None \<Rightarrow> Inr st
      | Some arch \<Rightarrow> if arch \<ge> 900 then Kernel args st else Inr st)"

section \<open>Kernel arguments\<close>

type_synonym ProblemShape = "int \<times> int \<times> int \<times> int"

text \<open>
  The layouts of the compressed operand and of its metadata are functions of the
  problem shape that the sparse configuration of CUTLASS computes; they stay symbolic.
\<close>

datatype layout = fill_layoutA ProblemShape | fill_layoutE ProblemShape

record MainloopArguments =
  ptr_A :: ptr
  layout_a :: layout
  ptr_B :: ptr
  dB :: "int \<times> int \<times> int"
  ptr_E :: ptr
  layout_e :: layout

record EpilogueArguments =
  thread :: arguments
  ptr_C :: ptr
  dC :: "int \<times> int \<times> int"
  ptr_D :: ptr
  dD :: "int \<times> int \<times> int"

record GemmArguments =
  mode :: GemmUniversalMode
  problem_shape :: ProblemShape
  mainloop_args :: MainloopArguments
  epilogue_args :: EpilogueArguments

text \<open>The conversion of an \<^verbatim>\<open>int64_t\<close> extent to \<^verbatim>\<open>int32_t\<close> keeps the low 32 bits.\<close>

definition to_int32 :: "int \<Rightarrow> int" where
  "to_int32 x = sint (word_of_int x :: 32 word)"

text \<open>
  The first part of \<^verbatim>\<open>cutlass_sparse_gemm_caller\<close>, up to the construction of
  \<^verbatim>\<open>args\<close>: shapes and strides are read from the tensors, and the output pointer and
  stride are passed both as C and as D.
\<close>

definition caller_arguments ::
  "'p cutlass_3x_gemm \<Rightarrow> tensor \<Rightarrow> tensor \<Rightarrow> tensor \<Rightarrow> tensor \<Rightarrow> 'p \<Rightarrow> error + GemmArguments" where
  "caller_arguments Gemm out a e b epilogue_params =
     bindE (size_at a 0) (\<lambda>m64.
     bindE (size_at b 1) (\<lambda>n64.
     bindE (size_at a 1) (\<lambda>k64.
     bindE (stride_at a 0) (\<lambda>lda.
     bindE (stride_at b 1) (\<lambda>ldb.
     bindE (stride_at out 0) (\<lambda>ldc.
     let m = to_int32 m64; n = to_int32 n64; k = to_int32 k64;
         a_stride = (lda, 1 :: int, 0 :: int);
         b_stride = (ldb, 1 :: int, 0 :: int);
         c_stride = (ldc, 1 :: int, 0 :: int);
         prob_shape = (m, n, k, 1);
         a_layout = fill_layoutA prob_shape;
         e_layout = fill_layoutE prob_shape;
         a_ptr = data_ptr a;
         b_ptr = data_ptr b;
         e_ptr = data_ptr e;
         mainloop_args = \<lparr>ptr_A = a_ptr, layout_a = a_layout, ptr_B = b_ptr, dB = b_stride,
                          ptr_E = e_ptr, layout_e = e_layout\<rparr>;
         c_ptr = data_ptr out
     in bindE (prepare_args (Gemm_Epilogue Gemm) epilogue_params) (\<lambda>thread_args.
        let epilogue_args = \<lparr>thread = thread_args, ptr_C = c_ptr, dC = c_stride,
                             ptr_D = c_ptr, dD = c_stride\<rparr>
        in Inr \<lparr>mode = kGemm, problem_shape = prob_shape, mainloop_args = mainloop_args,
                epilogue_args = epilogue_args\<rparr>)))))))"

section \<open>The dispatch entry point: \<^verbatim>\<open>cutlass_sparse_gemm_caller\<close>\<close>

text \<open>
  The collaborators of the entry point are parameters: what the CUTLASS adapter answers
  to \<^verbatim>\<open>can_implement\<close>, \<^verbatim>\<open>get_workspace_size\<close> and \<^verbatim>\<open>run\<close>, and the address the
  allocator of torch returns for a request of a number of bytes on a device.
\<close>

datatype stream = getCurrentCUDAStream nat

datatype ScalarType = kUInt8 | kInt8 | kInt32 | kFloat

record env =
  can_implement :: "GemmArguments \<Rightarrow> Status"
  get_workspace_size :: "GemmArguments \<Rightarrow> nat"
  run :: "GemmArguments \<Rightarrow> ptr \<Rightarrow> stream \<Rightarrow> Status"
  allocator :: "nat \<Rightarrow> nat \<Rightarrow> ptr"

text \<open>
  What the entry point does to the device is recorded as a list of events, oldest first:
  an allocation by \<^verbatim>\<open>torch::empty\<close> (size, element type, device) and a call of
  \<^verbatim>\<open>gemm_op.run\<close> (arguments, workspace pointer, stream).
\<close>

datatype event =
    TorchEmpty nat ScalarType nat
  | GemmRun GemmArguments ptr stream

definition torch_empty :: "env \<Rightarrow> nat \<Rightarrow> ScalarType \<Rightarrow> nat \<Rightarrow> tensor" where
  "torch_empty E n dtype dev =
     \<lparr>sizes = [int n], strides = [1], data_ptr = allocator E n dev, device = dev\<rparr>"

text \<open>
  Modelled from the spec: the macro \<^verbatim>\<open>CUTLASS_CHECK\<close> comes from \<^verbatim>\<open>util/common.hpp\<close>,
  which is not part of the source at hand. By spec 7 a failed check aborts the call with a
  status that tells the failure.
\<close>

definition CUTLASS_CHECK :: "Status \<Rightarrow> error + unit" where
  "CUTLASS_CHECK status = (if status = kSuccess then Inr () else Inl (CutlassError status))"

definition cutlass_sparse_gemm_caller ::
  "env \<Rightarrow> 'p cutlass_3x_gemm \<Rightarrow> tensor \<Rightarrow> tensor \<Rightarrow> tensor \<Rightarrow> tensor \<Rightarrow> 'p \<Rightarrow> event list
     \<Rightarrow> (error + unit) \<times> event list" where
  "cutlass_sparse_gemm_caller E Gemm out a e b epilogue_params trace =
     (case caller_arguments Gemm out a e b epilogue_params of
        Inl err \<Rightarrow> (Inl err, trace)
      | Inr args \<Rightarrow>
          (case CUTLASS_CHECK (can_implement E args) of
             Inl err \<Rightarrow> (Inl err, trace)
           | Inr _ \<Rightarrow>
               let workspace_size = get_workspace_size E args;
                   workspace = torch_empty E workspace_size kUInt8 (device a);
                   trace1 = trace @ [TorchEmpty workspace_size kUInt8 (device a)];
                   stream = getCurrentCUDAStream (device a);
                   status = run E args (data_ptr workspace) stream;
                   trace2 = trace1 @ [GemmRun args (data_ptr workspace) stream]
               in (CUTLASS_CHECK status, trace2)))"

text \<open>The allocations among the events of a call.\<close>

definition allocations :: "event list \<Rightarrow> event list" where
  "allocations trace = filter (\<lambda>ev. case ev of TorchEmpty _ _ _ \<Rightarrow> True | _ \<Rightarrow> False) trace"

section \<open>The kernel on the device\<close>

text \<open>
  The address of element \<open>(i, j)\<close> of a tensor at \<open>d\<close> with the strides of
  \<^verbatim>\<open>StrideD\<close>: row \<open>i\<close> at stride \<open>ldc\<close>, column \<open>j\<close> at stride 1.
\<close>

definition element_address :: "int \<Rightarrow> int \<times> int \<times> int \<Rightarrow> nat \<times> nat \<Rightarrow> int" where
  "element_address d s c =
     (case s of (ld, s1, s0) \<Rightarrow> case c of (i, j) \<Rightarrow> d + int i * ld + int j * s1)"

text \<open>
  Modelled from the spec: the body of the kernel (\<^verbatim>\<open>GemmUniversal\<close> of CUTLASS) is not
  part of the source at hand. By spec 4.1 and 6 it writes, for every element \<open>(i, j)\<close> of
  the \<open>M \<times> N\<close> output, the epilogue's value for that element's accumulator to the output
  tensor. The accumulators are the result of the multiply engine, which is opaque here:
  \<open>accum i j\<close>. The auxiliary operands are read from the memory as it is when the kernel
  starts. There is no read through \<^verbatim>\<open>ptr_C\<close>: the kernel has no source operand.
\<close>

fun store_elements ::
  "('f, 'd) numerics \<Rightarrow> ('f, 'd) memory \<Rightarrow> (nat \<Rightarrow> nat \<Rightarrow> ('f, 'd) val) \<Rightarrow> evt \<Rightarrow> arguments
     \<Rightarrow> ptr \<Rightarrow> int \<times> int \<times> int \<Rightarrow> (nat \<times> nat) list \<Rightarrow> ('f, 'd) memory
     \<Rightarrow> error + ('f, 'd) memory" where
  "store_elements ops mem accum tree targs p s [] result = Inr result"
| "store_elements ops mem accum tree targs p s (c # cs) result =
     bindE (visit ops mem (accum (fst c) (snd c)) (fst c) (snd c) tree targs) (\<lambda>v.
       case p of
         None \<Rightarrow> Inl NullPointer
       | Some d \<Rightarrow>
           store_elements ops mem accum tree targs p s cs
             (result\<lparr>mem_d := (mem_d result)
                (element_address d s c := as_d ops round_to_nearest v)\<rparr>))"

definition output_coordinates :: "GemmArguments \<Rightarrow> (nat \<times> nat) list" where
  "output_coordinates args =
     (case problem_shape args of (m, n, k, l) \<Rightarrow> List.product [0..<nat m] [0..<nat n])"

text \<open>
  Modelled from the spec: the kernel stores the elements of the problem shape
  \<open>(M, N)\<close> of its arguments through \<^verbatim>\<open>ptr_D\<close> with the strides \<^verbatim>\<open>dD\<close>.
\<close>

definition GemmUniversal ::
  "('f, 'd) numerics \<Rightarrow> (nat \<Rightarrow> nat \<Rightarrow> ('f, 'd) val) \<Rightarrow> 'p cutlass_3x_gemm \<Rightarrow> GemmArguments
     \<Rightarrow> ('f, 'd) memory \<Rightarrow> error + ('f, 'd) memory" where
  "GemmUniversal ops accum Gemm args mem =
     store_elements ops mem accum (EVTCompute (Gemm_Epilogue Gemm)) (thread (epilogue_args args))
       (ptr_D (epilogue_args args)) (dD (epilogue_args args)) (output_coordinates args) mem"

text \<open>\<^verbatim>\<open>KernelType\<close>: the kernel behind the guard.\<close>

definition GemmKernel ::
  "('f, 'd) numerics \<Rightarrow> (nat \<Rightarrow> nat \<Rightarrow> ('f, 'd) val) \<Rightarrow> nat option \<Rightarrow> 'p cutlass_3x_gemm
     \<Rightarrow> GemmArguments \<Rightarrow> ('f, 'd) memory \<Rightarrow> error + ('f, 'd) memory" where
  "GemmKernel ops accum CUDA_ARCH Gemm =
     enable_sm90_or_later CUDA_ARCH (GemmUniversal ops accum Gemm)"

text \<open>The cells of the output tensor: the addresses the kernel writes.\<close>

definition written_cells :: "ptr \<Rightarrow> int \<times> int \<times> int \<Rightarrow> (nat \<times> nat) list \<Rightarrow> int set" where
  "written_cells p s cs = (case p of None \<Rightarrow> {} | Some d \<Rightarrow> element_address d s ` set cs)"

definition output_region :: "GemmArguments \<Rightarrow> int set" where
  "output_region args =
     written_cells (ptr_D (epilogue_args args)) (dD (epilogue_args args))
       (output_coordinates args)"

text \<open>
  The cells of the auxiliary operands (scales, zero points, bias) that a tree loads at
  coordinate \<open>(m, n)\<close>, each with its element type: the reads of \<open>visit\<close>.
\<close>

fun operand_cells :: "evt \<Rightarrow> arguments \<Rightarrow> nat \<Rightarrow> nat \<Rightarrow> (element \<times> int) list"
and operand_cells_children ::
  "evt list \<Rightarrow> arguments list \<Rightarrow> nat \<Rightarrow> nat \<Rightarrow> (element \<times> int) list" where
  "operand_cells (Sm90ColOrScalarBroadcast T s) (BroadcastArgs p v) m n =
     (case p of None \<Rightarrow> [] | Some a \<Rightarrow> [(T, a + (if v then crd2idx (m, n, 0) s else 0))])"
| "operand_cells (Sm90RowOrScalarBroadcast T s) (BroadcastArgs p v) m n =
     (case p of None \<Rightarrow> [] | Some a \<Rightarrow> [(T, a + (if v then crd2idx (m, n, 0) s else 0))])"
| "operand_cells (Sm90ColBroadcast T s EnableNullPtr) (VecArgs p) m n =
     (case p of None \<Rightarrow> [] | Some a \<Rightarrow> [(T, a + crd2idx (m, n, 0) s)])"
| "operand_cells (Sm90RowBroadcast T s EnableNullPtr) (VecArgs p) m n =
     (case p of None \<Rightarrow> [] | Some a \<Rightarrow> [(T, a + crd2idx (m, n, 0) s)])"
| "operand_cells (Sm90EVT node children) (EVTArgs child_args) m n =
     operand_cells_children children child_args m n"
| "operand_cells _ _ m n = []"
| "operand_cells_children (t # ts) (a # as) m n =
     operand_cells t a m n @ operand_cells_children ts as m n"
| "operand_cells_children (t # ts) [] m n =
     operand_cells t NoArgs m n @ operand_cells_children ts [] m n"
| "operand_cells_children [] _ m n = []"

section \<open>The configurations of the 8-bit integer family\<close>

definition sm90_int8_config_default ::
  "scalar_type \<Rightarrow> scalar_type \<Rightarrow> 'p epilogue \<Rightarrow> error + 'p cutlass_3x_gemm" where
  "sm90_int8_config_default InType OutType Epilogue =
     (if InType \<noteq> int8_t then Inl StaticAssertFailed
      else Inr \<lparr>Gemm_ElementAB = InType, Gemm_ElementD = OutType, Gemm_Epilogue = Epilogue,
                TileShape = (128, 128, 128), ClusterShape = (2, 1, 1),
                KernelSchedule = KernelTmaWarpSpecializedPingpong,
                EpilogueSchedule = TmaWarpSpecialized, AccType = int32_t,
                TileSchedule = PersistentScheduler, Gemm_Mode = kGemm\<rparr>)"

definition sm90_int8_config_M128 ::
  "scalar_type \<Rightarrow> scalar_type \<Rightarrow> 'p epilogue \<Rightarrow> error + 'p cutlass_3x_gemm" where
  "sm90_int8_config_M128 InType OutType Epilogue =
     (if InType \<noteq> int8_t then Inl StaticAssertFailed
      else Inr \<lparr>Gemm_ElementAB = InType, Gemm_ElementD = OutType, Gemm_Epilogue = Epilogue,
                TileShape = (64, 128, 128), ClusterShape = (2, 1, 1),
                KernelSchedule = KernelTmaWarpSpecializedPingpong,
                EpilogueSchedule = TmaWarpSpecialized, AccType = int32_t,
                TileSchedule = PersistentScheduler, Gemm_Mode = kGemm\<rparr>)"

definition sm90_int8_config_M64 ::
  "scalar_type \<Rightarrow> scalar_type \<Rightarrow> 'p epilogue \<Rightarrow> error + 'p cutlass_3x_gemm" where
  "sm90_int8_config_M64 InType OutType Epilogue =
     (if InType \<noteq> int8_t then Inl StaticAssertFailed
      else Inr \<lparr>Gemm_ElementAB = InType, Gemm_ElementD = OutType, Gemm_Epilogue = Epilogue,
                TileShape = (64, 64, 256), ClusterShape = (1, 1, 1),
                KernelSchedule = KernelTmaWarpSpecialized,
                EpilogueSchedule = TmaWarpSpecialized, AccType = int32_t,
                TileSchedule = PersistentScheduler, Gemm_Mode = kGemm\<rparr>)"

definition sm90_int8_config_M32_NBig ::
  "scalar_type \<Rightarrow> scalar_type \<Rightarrow> 'p epilogue \<Rightarrow> error + 'p cutlass_3x_gemm" where
  "sm90_int8_config_M32_NBig InType OutType Epilogue =
     (if InType \<noteq> int8_t then Inl StaticAssertFailed
      else Inr \<lparr>Gemm_ElementAB = InType, Gemm_ElementD = OutType, Gemm_Epilogue = Epilogue,
                TileShape = (64, 128, 256), ClusterShape = (1, 4, 1),
                KernelSchedule = KernelTmaWarpSpecialized,
                EpilogueSchedule = TmaWarpSpecialized, AccType = int32_t,
                TileSchedule = PersistentScheduler, Gemm_Mode = kGemm\<rparr>)"

definition sm90_int8_config_M32_NSmall ::
  "scalar_type \<Rightarrow> scalar_type \<Rightarrow> 'p epilogue \<Rightarrow> error + 'p cutlass_3x_gemm" where
  "sm90_int8_config_M32_NSmall InType OutType Epilogue =
     (if InType \<noteq> int8_t then Inl StaticAssertFailed
      else Inr \<lparr>Gemm_ElementAB = InType, Gemm_ElementD = OutType, Gemm_Epilogue = Epilogue,
                TileShape = (64, 64, 256), ClusterShape = (1, 8, 1),
                KernelSchedule = KernelTmaWarpSpecialized,
                EpilogueSchedule = TmaWarpSpecialized, AccType = int32_t,
                TileSchedule = PersistentScheduler, Gemm_Mode = kGemm\<rparr>)"

text \<open>
  Modelled from the spec: the function that chooses among these five configurations is
  not part of the source at hand (the header only declares them, each with the range of
  M and N it is meant for in a comment). Spec 4.3: bucketed by M; \<open>M \<le> 32\<close> further splits
  on N (\<open>N \<ge> 8192\<close> or \<open>N < 8192\<close>); then \<open>32 < M \<le> 64\<close>, \<open>64 < M \<le> 128\<close> and \<open>M > 128\<close>.
\<close>

definition int8_configuration_selector ::
  "int \<Rightarrow> int \<Rightarrow> scalar_type \<Rightarrow> 'p epilogue \<Rightarrow> error + 'p cutlass_3x_gemm" where
  "int8_configuration_selector M N OutType Epilogue =
     (if M \<le> 32 then
        (if N \<ge> 8192 then sm90_int8_config_M32_NBig int8_t OutType Epilogue
         else sm90_int8_config_M32_NSmall int8_t OutType Epilogue)
      else if M \<le> 64 then sm90_int8_config_M64 int8_t OutType Epilogue
      else if M \<le> 128 then sm90_int8_config_M128 int8_t OutType Epilogue
      else sm90_int8_config_default int8_t OutType Epilogue)"

section \<open>The formulas of the specification\<close>



definition spec_ScaleBiasZP_PerTensor ::
  "('f, 'd) numerics \<Rightarrow> 'f \<Rightarrow> 'f \<Rightarrow> ('f, 'd) val \<Rightarrow> 32 word \<Rightarrow> 'd \<Rightarrow> 'd" where
  "spec_ScaleBiasZP_PerTensor ops scaleA scaleB accum zpAdj bias =
     float_to_d ops round_to_nearest
       (f_multiply_add ops round_to_nearest scaleA
          (f_multiplies ops round_to_nearest scaleB
             (int32_to_float ops round_to_nearest
                (as_int32 ops round_to_nearest accum - zpAdj)))
          (d_to_float ops round_to_nearest bias))"

definition spec_ScaleBiasZP_PerToken ::
  "('f, 'd) numerics \<Rightarrow> 'f \<Rightarrow> 'f \<Rightarrow> ('f, 'd) val \<Rightarrow> 32 word \<Rightarrow> 32 word \<Rightarrow> 'd \<Rightarrow> 'd" where
  "spec_ScaleBiasZP_PerToken ops scaleA scaleB accum zp zpAdj bias =
     float_to_d ops round_to_nearest
       (f_multiply_add ops round_to_nearest scaleA
          (f_multiplies ops round_to_nearest scaleB
             (int32_to_float ops round_to_nearest
                (as_int32 ops round_to_nearest accum - zp * zpAdj)))
          (d_to_float ops round_to_nearest bias))"

text \<open>
  The operands of the formulas, after spec 3: a scale is a scalar (element count 1,
  one value for all rows or columns) or a vector (one value for each); the bias of the
  zero-point variants may be absent, and then is zero.
\<close>

definition scalar_or_vector_at :: "(int \<Rightarrow> 'x) \<Rightarrow> tensor \<Rightarrow> int \<Rightarrow> nat \<Rightarrow> 'x" where
  "scalar_or_vector_at cells t p k = cells (p + (if numel t = 1 then 0 else int k))"

definition vector_at :: "(int \<Rightarrow> 'x) \<Rightarrow> int \<Rightarrow> nat \<Rightarrow> 'x" where
  "vector_at cells p k = cells (p + int k)"

definition optional_bias_at ::
  "('f, 'd) numerics \<Rightarrow> ('f, 'd) memory \<Rightarrow> tensor option \<Rightarrow> nat \<Rightarrow> 'd" where
  "optional_bias_at ops mem bias j =
     (case bias of
        None \<Rightarrow> d_zero ops
      | Some t \<Rightarrow> (case data_ptr t of None \<Rightarrow> d_zero ops | Some p \<Rightarrow> vector_at (mem_d mem) p j))"

section \<open>Concrete inputs\<close>

text \<open>
  An instance of the arithmetic in which floating-point values are integers and every
  operation is exact, two memories that differ in the cells of the output tensor only,
  some tensors, two environments and a kernel that counts its calls: the inputs at which
  the theorems below are run.
\<close>

definition integer_numerics :: "(int, int) numerics" where
  "integer_numerics =
     \<lparr>f_multiplies = (\<lambda>r a b. a * b), f_minus = (\<lambda>r a b. a - b),
      f_multiply_add = (\<lambda>r a b c. a * b + c), f_zero = 0, d_zero = 0,
      int32_to_float = (\<lambda>r. sint), d_to_float = (\<lambda>r x. x),
      float_to_int32 = (\<lambda>r. word_of_int), d_to_int32 = (\<lambda>r. word_of_int),
      float_to_d = (\<lambda>r x. x), int32_to_d = (\<lambda>r. sint)\<rparr>"

definition example_memory :: "(int, int) memory" where
  "example_memory =
     \<lparr>mem_float = (\<lambda>a. if 600 \<le> a \<and> a < 610 then 3 else if a = 700 then 3 else a),
      mem_int32 = (\<lambda>a. if 300 \<le> a \<and> a < 310 then 7
                         else if 500 \<le> a \<and> a < 510 then 7 * word_of_int (a - 100)
                         else word_of_int a),
      mem_d = (\<lambda>a. a + 1)\<rparr>"

definition example_vector :: "int \<Rightarrow> int \<Rightarrow> tensor" where
  "example_vector p n = \<lparr>sizes = [n], strides = [1], data_ptr = Some p, device = 0\<rparr>"

definition example_scalar :: "int \<Rightarrow> tensor" where
  "example_scalar p = \<lparr>sizes = [1, 1], strides = [1, 1], data_ptr = Some p, device = 0\<rparr>"

definition example_null_tensor :: tensor where
  "example_null_tensor = \<lparr>sizes = [0], strides = [1], data_ptr = None, device = 0\<rparr>"

definition example_overwritten_memory :: "(int, int) memory" where
  "example_overwritten_memory =
     example_memory\<lparr>mem_d := (\<lambda>a. if 0 \<le> a \<and> a < 4 then 99 else a + 1)\<rparr>"

definition example_a :: tensor where
  "example_a = \<lparr>sizes = [2, 8], strides = [8, 1], data_ptr = Some 1000, device = 0\<rparr>"

definition example_e :: tensor where
  "example_e = \<lparr>sizes = [2, 2], strides = [2, 1], data_ptr = Some 2000, device = 0\<rparr>"

definition example_b :: tensor where
  "example_b = \<lparr>sizes = [16, 2], strides = [1, 16], data_ptr = Some 3000, device = 0\<rparr>"

definition example_out :: tensor where
  "example_out = \<lparr>sizes = [2, 2], strides = [2, 1], data_ptr = Some 0, device = 0\<rparr>"

definition example_gemm :: "(tensor \<times> tensor \<times> tensor) cutlass_3x_gemm" where
  "example_gemm =
     \<lparr>Gemm_ElementAB = int8_t, Gemm_ElementD = half_t, Gemm_Epilogue = ScaledEpilogueBias,
      TileShape = (64, 64, 256), ClusterShape = (1, 8, 1),
      KernelSchedule = KernelTmaWarpSpecialized, EpilogueSchedule = TmaWarpSpecialized,
      AccType = int32_t, TileSchedule = PersistentScheduler, Gemm_Mode = kGemm\<rparr>"

definition example_params :: "tensor \<times> tensor \<times> tensor" where
  "example_params = (example_vector 100 2, example_scalar 200, example_vector 50 2)"

definition example_args :: GemmArguments where
  "example_args =
     \<lparr>mode = kGemm, problem_shape = (2, 2, 8, 1),
      mainloop_args = \<lparr>ptr_A = Some 1000, layout_a = fill_layoutA (2, 2, 8, 1),
                       ptr_B = Some 3000, dB = (16, 1, 0),
                       ptr_E = Some 2000, layout_e = fill_layoutE (2, 2, 8, 1)\<rparr>,
      epilogue_args = \<lparr>thread = EVTArgs [BroadcastArgs (Some 100) True,
                                          EVTArgs [BroadcastArgs (Some 200) False],
                                          VecArgs (Some 50)],
                       ptr_C = Some 0, dC = (2, 1, 0), ptr_D = Some 0, dD = (2, 1, 0)\<rparr>\<rparr>"

definition example_params_null_bias :: "tensor \<times> tensor \<times> tensor" where
  "example_params_null_bias = (example_vector 100 2, example_scalar 200, example_null_tensor)"

definition example_args_null_bias :: GemmArguments where
  "example_args_null_bias =
     example_args\<lparr>epilogue_args := (epilogue_args example_args)
       \<lparr>thread := EVTArgs [BroadcastArgs (Some 100) True,
                           EVTArgs [BroadcastArgs (Some 200) False],
                           VecArgs None]\<rparr>\<rparr>"

definition accepting_env :: env where
  "accepting_env =
     \<lparr>can_implement = (\<lambda>args. kSuccess), get_workspace_size = (\<lambda>args. 64),
      run = (\<lambda>args workspace s. kSuccess), allocator = (\<lambda>n dev. Some 5000)\<rparr>"

definition rejecting_env :: env where
  "rejecting_env =
     \<lparr>can_implement = (\<lambda>args. kErrorInvalidProblem), get_workspace_size = (\<lambda>args. 64),
      run = (\<lambda>args workspace s. kSuccess), allocator = (\<lambda>n dev. Some 5000)\<rparr>"

definition counting_kernel :: "unit \<Rightarrow> nat \<Rightarrow> error + nat" where
  "counting_kernel args calls = Inr (Suc calls)"

definition example_accum :: "nat \<Rightarrow> nat \<Rightarrow> (int, int) val" where
  "example_accum i j = VInt32 (word_of_nat (10 * i + j))"

section \<open>The values of the four epilogues\<close>

lemmas loader_defs = ColOrScalarLoad_def RowOrScalarLoad_def ColLoad_def RowLoad_def

lemmas example_defs =
  example_vector_def example_scalar_def example_memory_def integer_numerics_def numel_def

text \<open>The arguments each \<^verbatim>\<open>prepare_args\<close> builds, and the tree each epilogue visits.\<close>

lemma prepare_args_ScaledEpilogue:
  "prepare_args ScaledEpilogue (a_scales, b_scales) =
     Inr (EVTArgs [BroadcastArgs (data_ptr a_scales) (numel a_scales \<noteq> 1),
                   EVTArgs [BroadcastArgs (data_ptr b_scales) (numel b_scales \<noteq> 1)]])"
  by (simp add: ScaledEpilogue_def Let_def args_from_tensor_def bindE_def loader_defs)

lemma prepare_args_ScaledEpilogueBias:
  "prepare_args ScaledEpilogueBias (a_scales, b_scales, bias) =
     Inr (EVTArgs [BroadcastArgs (data_ptr a_scales) (numel a_scales \<noteq> 1),
                   EVTArgs [BroadcastArgs (data_ptr b_scales) (numel b_scales \<noteq> 1)],
                   VecArgs (data_ptr bias)])"
  by (simp add: ScaledEpilogueBias_def Let_def args_from_tensor_def bindE_def loader_defs)

lemma prepare_args_ScaledEpilogueBiasAzp:
  "prepare_args ScaledEpilogueBiasAzp (a_scales, b_scales, azp_adj, bias) =
     Inr (EVTArgs [BroadcastArgs (data_ptr a_scales) (numel a_scales \<noteq> 1),
                   EVTArgs [BroadcastArgs (data_ptr b_scales) (numel b_scales \<noteq> 1),
                            EVTArgs [NoArgs, VecArgs (data_ptr azp_adj)]],
                   VecArgs (case bias of Some t \<Rightarrow> data_ptr t | None \<Rightarrow> None)])"
  by (simp add: ScaledEpilogueBiasAzp_def Let_def args_from_tensor_def
      args_from_optional_tensor_def bindE_def loader_defs)

lemma prepare_args_ScaledEpilogueBiasAzpToken:
  "prepare_args ScaledEpilogueBiasAzpToken (a_scales, b_scales, azp_adj, azp, bias) =
     Inr (EVTArgs [BroadcastArgs (data_ptr a_scales) (numel a_scales \<noteq> 1),
                   EVTArgs [BroadcastArgs (data_ptr b_scales) (numel b_scales \<noteq> 1),
                            EVTArgs [NoArgs,
                                     EVTArgs [VecArgs (data_ptr azp),
                                              VecArgs (data_ptr azp_adj)]]],
                   VecArgs (case bias of Some t \<Rightarrow> data_ptr t | None \<Rightarrow> None)])"
  by (simp add: ScaledEpilogueBiasAzpToken_def Let_def args_from_tensor_def
      args_from_optional_tensor_def bindE_def loader_defs)

lemma EVTCompute_ScaledEpilogue:
  "EVTCompute ScaledEpilogue =
     Sm90EVT (Sm90Compute cutlass_multiplies ElementD float round_to_nearest)
       [Sm90ColOrScalarBroadcast float (1, 0, 0),
        Sm90EVT (Sm90Compute cutlass_multiplies float float round_to_nearest)
          [Sm90RowOrScalarBroadcast float (0, 1, 0), Sm90AccFetch]]"
  by (simp add: ScaledEpilogue_def Let_def loader_defs)

lemma EVTCompute_ScaledEpilogueBias:
  "EVTCompute ScaledEpilogueBias =
     Sm90EVT (Sm90Compute cutlass_multiply_add ElementD float round_to_nearest)
       [Sm90ColOrScalarBroadcast float (1, 0, 0),
        Sm90EVT (Sm90Compute cutlass_multiplies float float round_to_nearest)
          [Sm90RowOrScalarBroadcast float (0, 1, 0), Sm90AccFetch],
        Sm90RowBroadcast ElementD (0, 1, 0) False]"
  by (simp add: ScaledEpilogueBias_def Let_def loader_defs)

lemma EVTCompute_ScaledEpilogueBiasAzp:
  "EVTCompute ScaledEpilogueBiasAzp =
     Sm90EVT (Sm90Compute cutlass_multiply_add ElementD float round_to_nearest)
       [Sm90ColOrScalarBroadcast float (1, 0, 0),
        Sm90EVT (Sm90Compute cutlass_multiplies float float round_to_nearest)
          [Sm90RowOrScalarBroadcast float (0, 1, 0),
           Sm90EVT (Sm90Compute cutlass_minus float int32_t round_to_nearest)
             [Sm90AccFetch, Sm90RowBroadcast int32_t (0, 1, 0) False]],
        Sm90RowBroadcast ElementD (0, 1, 0) True]"
  by (simp add: ScaledEpilogueBiasAzp_def Let_def loader_defs)

lemma EVTCompute_ScaledEpilogueBiasAzpToken:
  "EVTCompute ScaledEpilogueBiasAzpToken =
     Sm90EVT (Sm90Compute cutlass_multiply_add ElementD float round_to_nearest)
       [Sm90ColOrScalarBroadcast float (1, 0, 0),
        Sm90EVT (Sm90Compute cutlass_multiplies float float round_to_nearest)
          [Sm90RowOrScalarBroadcast float (0, 1, 0),
           Sm90EVT (Sm90Compute cutlass_minus float int32_t round_to_nearest)
             [Sm90AccFetch,
              Sm90EVT (Sm90Compute cutlass_multiplies int32_t int32_t round_to_nearest)
                [Sm90ColBroadcast int32_t (1, 0, 0) False,
                 Sm90RowBroadcast int32_t (0, 1, 0) False]]],
        Sm90RowBroadcast ElementD (0, 1, 0) True]"
  by (simp add: ScaledEpilogueBiasAzpToken_def Let_def loader_defs)

lemmas epilogue_simps =
  epilogue_output_def bindE_def load_scalar_or_vector_def load_vector_def crd2idx_def
  prepare_args_ScaledEpilogue prepare_args_ScaledEpilogueBias
  prepare_args_ScaledEpilogueBiasAzp prepare_args_ScaledEpilogueBiasAzpToken
  EVTCompute_ScaledEpilogue EVTCompute_ScaledEpilogueBias
  EVTCompute_ScaledEpilogueBiasAzp EVTCompute_ScaledEpilogueBiasAzpToken

lemma prepare_then_visit:
  "prepare_args Epilogue params = Inr targs \<Longrightarrow>
   epilogue_output ops Epilogue params mem acc i j =
     visit ops mem acc i j (EVTCompute Epilogue) targs"
  by (simp add: epilogue_output_def bindE_def)



lemma ScaledEpilogueBiasAzp_value:
  assumes "data_ptr a_scales = Some pa" and "data_ptr b_scales = Some pb"
    and "data_ptr azp_adj = Some padj"
  shows "epilogue_output ops ScaledEpilogueBiasAzp (a_scales, b_scales, azp_adj, bias)
      mem acc i j =
    Inr (VElementD (float_to_d ops round_to_nearest
      (f_multiply_add ops round_to_nearest
        (mem_float mem (pa + (if numel a_scales \<noteq> 1 then int i else 0)))
        (f_multiplies ops round_to_nearest
           (mem_float mem (pb + (if numel b_scales \<noteq> 1 then int j else 0)))
           (int32_to_float ops round_to_nearest
              (as_int32 ops round_to_nearest acc - mem_int32 mem (padj + int j))))
        (d_to_float ops round_to_nearest (optional_bias_at ops mem bias j)))))"
  using assms
  by (simp add: epilogue_simps optional_bias_at_def vector_at_def split: option.splits)

lemma ScaledEpilogueBiasAzpToken_value:
  assumes "data_ptr a_scales = Some pa" and "data_ptr b_scales = Some pb"
    and "data_ptr azp_adj = Some padj" and "data_ptr azp = Some pz"
  shows "epilogue_output ops ScaledEpilogueBiasAzpToken (a_scales, b_scales, azp_adj, azp, bias)
      mem acc i j =
    Inr (VElementD (float_to_d ops round_to_nearest
      (f_multiply_add ops round_to_nearest
        (mem_float mem (pa + (if numel a_scales \<noteq> 1 then int i else 0)))
        (f_multiplies ops round_to_nearest
           (mem_float mem (pb + (if numel b_scales \<noteq> 1 then int j else 0)))
           (int32_to_float ops round_to_nearest
              (as_int32 ops round_to_nearest acc
                 - mem_int32 mem (pz + int i) * mem_int32 mem (padj + int j))))
        (d_to_float ops round_to_nearest (optional_bias_at ops mem bias j)))))"
  using assms
  by (simp add: epilogue_simps optional_bias_at_def vector_at_def split: option.splits)



text \<open>
  Claim C4. Zero-point equivalence: when every entry of the per-row zero-point vector is
  the same constant \<open>z\<close>, the per-token epilogue computes, for every element of the
  \<open>M \<times> N\<close> tile, what the per-tensor epilogue computes with the adjustment vector whose
  entries are those of \<open>zpAdj\<close> multiplied by \<open>z\<close> (in 32-bit integer arithmetic, the
  element type of that tensor), for the same scales, bias and accumulator.
\<close>

theorem zero_point_equivalence:
  assumes "data_ptr azp = Some pz" and "data_ptr azp_adj = Some padj"
    and "data_ptr scaled_adj = Some ps"
    and "\<forall>i<M. mem_int32 mem (pz + int i) = z"
    and "\<forall>j<N. mem_int32 mem (ps + int j) = z * mem_int32 mem (padj + int j)"
    and "i < M" and "j < N"
  shows "epilogue_output ops ScaledEpilogueBiasAzpToken
           (a_scales, b_scales, azp_adj, azp, bias) mem acc i j =
         epilogue_output ops ScaledEpilogueBiasAzp
           (a_scales, b_scales, scaled_adj, bias) mem acc i j"
proof -
  have zp: "mem_int32 mem (pz + int i) = z" using assms(4,6) by simp
  have adj: "mem_int32 mem (ps + int j) = z * mem_int32 mem (padj + int j)"
    using assms(5,7) by simp
  show ?thesis
    unfolding prepare_then_visit [OF prepare_args_ScaledEpilogueBiasAzpToken]
      prepare_then_visit [OF prepare_args_ScaledEpilogueBiasAzp]
      EVTCompute_ScaledEpilogueBiasAzpToken EVTCompute_ScaledEpilogueBiasAzp
    by (cases "data_ptr a_scales"; cases "data_ptr b_scales")
      (simp_all add: assms(1,2,3) zp adj bindE_def load_scalar_or_vector_def load_vector_def
        crd2idx_def)
qed

theorem zero_point_equivalence_witness:
  "epilogue_output integer_numerics ScaledEpilogueBiasAzpToken
           (example_vector 100 4, example_scalar 200, example_vector 400 4,
            example_vector 300 4, Some (example_vector 50 4)) example_memory (VInt32 5) 2 3 =
   epilogue_output integer_numerics ScaledEpilogueBiasAzp
           (example_vector 100 4, example_scalar 200, example_vector 500 4,
            Some (example_vector 50 4)) example_memory (VInt32 5) 2 3"
proof -
  have p: "data_ptr (example_vector 300 4) = Some 300" "data_ptr (example_vector 400 4) = Some 400"
    "data_ptr (example_vector 500 4) = Some 500"
    by (simp_all add: example_vector_def)
  have zp: "\<forall>i<4. mem_int32 example_memory (300 + int i) = 7"
    by (simp add: example_memory_def)
  have adj: "\<forall>j<4. mem_int32 example_memory (500 + int j)
      = 7 * mem_int32 example_memory (400 + int j)"
    by (simp add: example_memory_def)
  show ?thesis
    by (rule zero_point_equivalence [OF p zp adj]) simp_all
qed

text \<open>What a scale loader yields for a vector of equal entries, and for a scalar.\<close>

lemma constant_vector_load:
  assumes "data_ptr v = Some pv" and "\<forall>k<K. mem_float mem (pv + int k) = c"
    and "m * sM + n * sN < K"
  shows "load_scalar_or_vector mem float (sM, sN, sL) (data_ptr v) (numel v \<noteq> 1) m n
           = Inr (VFloat c)"
proof -
  have "0 < K" using assms(3) by simp
  with assms(2) have "mem_float mem (pv + int 0) = c" by blast
  moreover from assms(2,3) have "mem_float mem (pv + int (m * sM + n * sN)) = c" by blast
  ultimately show ?thesis
    using assms(1) by (simp add: load_scalar_or_vector_def crd2idx_def)
qed

lemma scalar_load:
  assumes "numel s = 1" and "data_ptr s = Some ps" and "mem_float mem ps = c"
  shows "load_scalar_or_vector mem float st (data_ptr s) (numel s \<noteq> 1) m n = Inr (VFloat c)"
  using assms by (simp add: load_scalar_or_vector_def)

text \<open>
  Claim C5. Broadcast equivalence: let \<open>v\<close> be a scale tensor whose first \<open>K\<close> entries all
  equal \<open>c\<close>, and \<open>s\<close> any tensor of element count 1, of whatever shape, that holds \<open>c\<close>.
  Then every one of the four epilogues computes the same value with \<open>s\<close> in the place of
  \<open>v\<close>, as the scale of the rows (for a row \<open>i < K\<close>) and as the scale of the columns (for
  a column \<open>j < K\<close>). The flag that tells a vector from a scalar is computed from the
  element count alone: for \<open>s\<close> it is off.
\<close>

theorem broadcast_equivalence:
  assumes "data_ptr v = Some pv" and "\<forall>k<K. mem_float mem (pv + int k) = c"
    and "numel s = 1" and "data_ptr s = Some ps" and "mem_float mem ps = c"
  shows
   "(i < K \<longrightarrow>
       epilogue_output ops ScaledEpilogue (v, b_scales) mem acc i j =
         epilogue_output ops ScaledEpilogue (s, b_scales) mem acc i j \<and>
       epilogue_output ops ScaledEpilogueBias (v, b_scales, bias) mem acc i j =
         epilogue_output ops ScaledEpilogueBias (s, b_scales, bias) mem acc i j \<and>
       epilogue_output ops ScaledEpilogueBiasAzp (v, b_scales, azp_adj, optional_bias)
           mem acc i j =
         epilogue_output ops ScaledEpilogueBiasAzp (s, b_scales, azp_adj, optional_bias)
           mem acc i j \<and>
       epilogue_output ops ScaledEpilogueBiasAzpToken
           (v, b_scales, azp_adj, azp, optional_bias) mem acc i j =
         epilogue_output ops ScaledEpilogueBiasAzpToken
           (s, b_scales, azp_adj, azp, optional_bias) mem acc i j) \<and>
    (j < K \<longrightarrow>
       epilogue_output ops ScaledEpilogue (a_scales, v) mem acc i j =
         epilogue_output ops ScaledEpilogue (a_scales, s) mem acc i j \<and>
       epilogue_output ops ScaledEpilogueBias (a_scales, v, bias) mem acc i j =
         epilogue_output ops ScaledEpilogueBias (a_scales, s, bias) mem acc i j \<and>
       epilogue_output ops ScaledEpilogueBiasAzp (a_scales, v, azp_adj, optional_bias)
           mem acc i j =
         epilogue_output ops ScaledEpilogueBiasAzp (a_scales, s, azp_adj, optional_bias)
           mem acc i j \<and>
       epilogue_output ops ScaledEpilogueBiasAzpToken
           (a_scales, v, azp_adj, azp, optional_bias) mem acc i j =
         epilogue_output ops ScaledEpilogueBiasAzpToken
           (a_scales, s, azp_adj, azp, optional_bias) mem acc i j) \<and>
    args_from_tensor (ColOrScalarLoad float) float s = Inr (BroadcastArgs (Some ps) False) \<and>
    args_from_tensor (RowOrScalarLoad float) float s = Inr (BroadcastArgs (Some ps) False)"
proof (intro conjI impI)
  assume i: "i < K"
  have col: "load_scalar_or_vector mem float (1, 0, 0) (data_ptr v) (numel v \<noteq> 1) i j
      = Inr (VFloat c)"
    by (rule constant_vector_load [OF assms(1,2)]) (simp add: i)
  note sc = scalar_load [OF assms(3,4,5)]
  show "epilogue_output ops ScaledEpilogue (v, b_scales) mem acc i j =
         epilogue_output ops ScaledEpilogue (s, b_scales) mem acc i j"
    by (simp only: prepare_then_visit [OF prepare_args_ScaledEpilogue]
        EVTCompute_ScaledEpilogue visit.simps visit_children.simps col sc)
  show "epilogue_output ops ScaledEpilogueBias (v, b_scales, bias) mem acc i j =
         epilogue_output ops ScaledEpilogueBias (s, b_scales, bias) mem acc i j"
    by (simp only: prepare_then_visit [OF prepare_args_ScaledEpilogueBias]
        EVTCompute_ScaledEpilogueBias visit.simps visit_children.simps col sc)
  show "epilogue_output ops ScaledEpilogueBiasAzp (v, b_scales, azp_adj, optional_bias)
           mem acc i j =
         epilogue_output ops ScaledEpilogueBiasAzp (s, b_scales, azp_adj, optional_bias)
           mem acc i j"
    by (simp only: prepare_then_visit [OF prepare_args_ScaledEpilogueBiasAzp]
        EVTCompute_ScaledEpilogueBiasAzp visit.simps visit_children.simps col sc)
  show "epilogue_output ops ScaledEpilogueBiasAzpToken
           (v, b_scales, azp_adj, azp, optional_bias) mem acc i j =
         epilogue_output ops ScaledEpilogueBiasAzpToken
           (s, b_scales, azp_adj, azp, optional_bias) mem acc i j"
    by (simp only: prepare_then_visit [OF prepare_args_ScaledEpilogueBiasAzpToken]
        EVTCompute_ScaledEpilogueBiasAzpToken visit.simps visit_children.simps col sc)
next
  assume j: "j < K"
  have row: "load_scalar_or_vector mem float (0, 1, 0) (data_ptr v) (numel v \<noteq> 1) i j
      = Inr (VFloat c)"
    by (rule constant_vector_load [OF assms(1,2)]) (simp add: j)
  note sc = scalar_load [OF assms(3,4,5)]
  show "epilogue_output ops ScaledEpilogue (a_scales, v) mem acc i j =
         epilogue_output ops ScaledEpilogue (a_scales, s) mem acc i j"
    by (simp only: prepare_then_visit [OF prepare_args_ScaledEpilogue]
        EVTCompute_ScaledEpilogue visit.simps visit_children.simps row sc)
  show "epilogue_output ops ScaledEpilogueBias (a_scales, v, bias) mem acc i j =
         epilogue_output ops ScaledEpilogueBias (a_scales, s, bias) mem acc i j"
    by (simp only: prepare_then_visit [OF prepare_args_ScaledEpilogueBias]
        EVTCompute_ScaledEpilogueBias visit.simps visit_children.simps row sc)
  show "epilogue_output ops ScaledEpilogueBiasAzp (a_scales, v, azp_adj, optional_bias)
           mem acc i j =
         epilogue_output ops ScaledEpilogueBiasAzp (a_scales, s, azp_adj, optional_bias)
           mem acc i j"
    by (simp only: prepare_then_visit [OF prepare_args_ScaledEpilogueBiasAzp]
        EVTCompute_ScaledEpilogueBiasAzp visit.simps visit_children.simps row sc)
  show "epilogue_output ops ScaledEpilogueBiasAzpToken
           (a_scales, v, azp_adj, azp, optional_bias) mem acc i j =
         epilogue_output ops ScaledEpilogueBiasAzpToken
           (a_scales, s, azp_adj, azp, optional_bias) mem acc i j"
    by (simp only: prepare_then_visit [OF prepare_args_ScaledEpilogueBiasAzpToken]
        EVTCompute_ScaledEpilogueBiasAzpToken visit.simps visit_children.simps row sc)
next
  show "args_from_tensor (ColOrScalarLoad float) float s = Inr (BroadcastArgs (Some ps) False)"
    using assms(3,4) by (simp add: args_from_tensor_def)
  show "args_from_tensor (RowOrScalarLoad float) float s = Inr (BroadcastArgs (Some ps) False)"
    using assms(3,4) by (simp add: args_from_tensor_def)
qed

theorem broadcast_equivalence_witness:
  "epilogue_output integer_numerics ScaledEpilogueBiasAzpToken
      (example_vector 600 4, example_scalar 200, example_vector 400 4, example_vector 300 4, None)
      example_memory (VInt32 5) 2 3 =
   epilogue_output integer_numerics ScaledEpilogueBiasAzpToken
      (example_scalar 700, example_scalar 200, example_vector 400 4, example_vector 300 4, None)
      example_memory (VInt32 5) 2 3 \<and>
   epilogue_output integer_numerics ScaledEpilogue (example_vector 100 4, example_vector 600 4)
      example_memory (VInt32 5) 2 3 =
   epilogue_output integer_numerics ScaledEpilogue (example_vector 100 4, example_scalar 700)
      example_memory (VInt32 5) 2 3 \<and>
   args_from_tensor (ColOrScalarLoad float) float (example_scalar 700)
     = Inr (BroadcastArgs (Some 700) False)"
proof -
  have v: "data_ptr (example_vector 600 4) = Some 600" by (simp add: example_vector_def)
  have vc: "\<forall>k<4. mem_float example_memory (600 + int k) = 3"
    by (simp add: example_memory_def)
  have s: "numel (example_scalar 700) = 1" "data_ptr (example_scalar 700) = Some 700"
    "mem_float example_memory 700 = 3"
    by (simp_all add: example_scalar_def numel_def example_memory_def)
  from broadcast_equivalence [OF v vc s,
      where i = 2 and j = 3 and ops = integer_numerics and acc = "VInt32 5"
        and b_scales = "example_scalar 200" and a_scales = "example_vector 100 4"
        and azp_adj = "example_vector 400 4" and azp = "example_vector 300 4"
        and optional_bias = None]
  show ?thesis by simp
qed

text \<open>
  Claim C6. In both zero-point variants, for a 32-bit integer accumulator, the zero-point
  term is subtracted from the accumulator in 32-bit integer arithmetic (for the per-token
  variant the product \<open>zp[i] \<cdot> zpAdj[j]\<close> is a 32-bit integer product as well), and only
  the difference is converted to floating point. The product with the scale of the
  columns and the multiply-add with the scale of the rows and the bias are
  floating-point operations with round-to-nearest, and the result is cast to the output
  element type. In the statement \<open>-\<close> and \<open>*\<close> are the operations of \<open>32 word\<close>.
\<close>

theorem zero_point_arithmetic:
  assumes "data_ptr a_scales = Some pa" and "data_ptr b_scales = Some pb"
    and "data_ptr azp_adj = Some padj" and "data_ptr azp = Some pz"
  shows
   "epilogue_output ops ScaledEpilogueBiasAzp (a_scales, b_scales, azp_adj, optional_bias)
        mem (VInt32 acc) i j =
      Inr (VElementD (float_to_d ops round_to_nearest
        (f_multiply_add ops round_to_nearest
           (mem_float mem (pa + (if numel a_scales \<noteq> 1 then int i else 0)))
           (f_multiplies ops round_to_nearest
              (mem_float mem (pb + (if numel b_scales \<noteq> 1 then int j else 0)))
              (int32_to_float ops round_to_nearest (acc - mem_int32 mem (padj + int j))))
           (d_to_float ops round_to_nearest (optional_bias_at ops mem optional_bias j))))) \<and>
    epilogue_output ops ScaledEpilogueBiasAzpToken
        (a_scales, b_scales, azp_adj, azp, optional_bias) mem (VInt32 acc) i j =
      Inr (VElementD (float_to_d ops round_to_nearest
        (f_multiply_add ops round_to_nearest
           (mem_float mem (pa + (if numel a_scales \<noteq> 1 then int i else 0)))
           (f_multiplies ops round_to_nearest
              (mem_float mem (pb + (if numel b_scales \<noteq> 1 then int j else 0)))
              (int32_to_float ops round_to_nearest
                 (acc - mem_int32 mem (pz + int i) * mem_int32 mem (padj + int j))))
           (d_to_float ops round_to_nearest (optional_bias_at ops mem optional_bias j)))))"
  by (simp add: ScaledEpilogueBiasAzp_value [OF assms(1,2,3)]
      ScaledEpilogueBiasAzpToken_value [OF assms(1,2,3,4)])

text \<open>
  At the accumulator \<open>2\<^sup>3\<^sup>1\<close> (the most negative \<^verbatim>\<open>int32_t\<close>) and the adjustment 403 the
  difference wraps around to \<open>2147483245\<close> before it is converted.
\<close>

theorem zero_point_arithmetic_witness:
  "epilogue_output integer_numerics ScaledEpilogueBiasAzp
      (example_vector 100 4, example_scalar 200, example_vector 400 4, None)
      example_memory (VInt32 2147483648) 2 3 = Inr (VElementD 43808658198000) \<and>
   epilogue_output integer_numerics ScaledEpilogueBiasAzpToken
      (example_vector 100 4, example_scalar 200, example_vector 400 4, example_vector 300 4, None)
      example_memory (VInt32 2147483648) 2 3 = Inr (VElementD 43808608870800)"
proof -
  have p: "data_ptr (example_vector 100 4) = Some 100" "data_ptr (example_scalar 200) = Some 200"
    "data_ptr (example_vector 400 4) = Some 400" "data_ptr (example_vector 300 4) = Some 300"
    by (simp_all add: example_vector_def example_scalar_def)
  from zero_point_arithmetic [OF p, of integer_numerics None example_memory 2147483648 2 3]
  show ?thesis
    by (simp add: example_defs optional_bias_at_def)
qed

section \<open>The configuration selector of the 8-bit integer family\<close>

lemmas int8_config_defs =
  sm90_int8_config_default_def sm90_int8_config_M128_def sm90_int8_config_M64_def
  sm90_int8_config_M32_NBig_def sm90_int8_config_M32_NSmall_def

text \<open>
  Claim C2. For 8-bit integer operands the selector yields, for every M and N, the
  configuration the table documents: for \<open>M \<le> 32\<close> and \<open>N \<ge> 8192\<close> the tile
  \<open>64 \<times> 128 \<times> 256\<close> with a cluster of 4 along N; for \<open>M \<le> 32\<close> and \<open>N < 8192\<close> the tile
  \<open>64 \<times> 64 \<times> 256\<close> with a cluster of 8 along N; for \<open>32 < M \<le> 64\<close> the tile
  \<open>64 \<times> 64 \<times> 256\<close> with the unit cluster; for \<open>64 < M \<le> 128\<close> the tile \<open>64 \<times> 128 \<times> 128\<close>
  with a cluster of 2; for \<open>M > 128\<close> the tile \<open>128 \<times> 128 \<times> 128\<close> with a cluster of 2.
  The tile and cluster shapes are those of the configuration structs of the source.
\<close>

theorem int8_configuration_selector_table:
  "(M \<le> 32 \<and> 8192 \<le> N \<longrightarrow>
      (\<exists>g. int8_configuration_selector M N OutType Epilogue = Inr g \<and>
           TileShape g = (64, 128, 256) \<and> ClusterShape g = (1, 4, 1))) \<and>
   (M \<le> 32 \<and> N < 8192 \<longrightarrow>
      (\<exists>g. int8_configuration_selector M N OutType Epilogue = Inr g \<and>
           TileShape g = (64, 64, 256) \<and> ClusterShape g = (1, 8, 1))) \<and>
   (32 < M \<and> M \<le> 64 \<longrightarrow>
      (\<exists>g. int8_configuration_selector M N OutType Epilogue = Inr g \<and>
           TileShape g = (64, 64, 256) \<and> ClusterShape g = (1, 1, 1))) \<and>
   (64 < M \<and> M \<le> 128 \<longrightarrow>
      (\<exists>g. int8_configuration_selector M N OutType Epilogue = Inr g \<and>
           TileShape g = (64, 128, 128) \<and> ClusterShape g = (2, 1, 1))) \<and>
   (128 < M \<longrightarrow>
      (\<exists>g. int8_configuration_selector M N OutType Epilogue = Inr g \<and>
           TileShape g = (128, 128, 128) \<and> ClusterShape g = (2, 1, 1)))"
  by (simp add: int8_configuration_selector_def int8_config_defs)

theorem int8_configuration_selector_table_witness:
  "(\<exists>g. int8_configuration_selector 32 8192 half_t ScaledEpilogue = Inr g \<and>
        TileShape g = (64, 128, 256) \<and> ClusterShape g = (1, 4, 1)) \<and>
   (\<exists>g. int8_configuration_selector 32 8191 half_t ScaledEpilogue = Inr g \<and>
        TileShape g = (64, 64, 256) \<and> ClusterShape g = (1, 8, 1)) \<and>
   (\<exists>g. int8_configuration_selector 64 8192 half_t ScaledEpilogue = Inr g \<and>
        TileShape g = (64, 64, 256) \<and> ClusterShape g = (1, 1, 1)) \<and>
   (\<exists>g. int8_configuration_selector 65 8191 half_t ScaledEpilogue = Inr g \<and>
        TileShape g = (64, 128, 128) \<and> ClusterShape g = (2, 1, 1)) \<and>
   (\<exists>g. int8_configuration_selector 128 8192 half_t ScaledEpilogue = Inr g \<and>
        TileShape g = (64, 128, 128) \<and> ClusterShape g = (2, 1, 1)) \<and>
   (\<exists>g. int8_configuration_selector 129 8191 half_t ScaledEpilogue = Inr g \<and>
        TileShape g = (128, 128, 128) \<and> ClusterShape g = (2, 1, 1))"
  using int8_configuration_selector_table [of 32 8192 half_t ScaledEpilogue]
    int8_configuration_selector_table [of 32 8191 half_t ScaledEpilogue]
    int8_configuration_selector_table [of 64 8192 half_t ScaledEpilogue]
    int8_configuration_selector_table [of 65 8191 half_t ScaledEpilogue]
    int8_configuration_selector_table [of 128 8192 half_t ScaledEpilogue]
    int8_configuration_selector_table [of 129 8191 half_t ScaledEpilogue]
  by simp

section \<open>The execution guard\<close>

text \<open>
  Claim C7. The guarded \<^verbatim>\<open>operator()\<close> calls the underlying kernel if and only if the
  device code was compiled for architecture 900 or later; for an older architecture, or
  where \<^verbatim>\<open>__CUDA_ARCH__\<close> is not defined, it does nothing: the state is returned as it
  was. The statement holds for every kernel, so also for one that records its calls.
\<close>

theorem enable_sm90_or_later_guard:
  "(CUDA_ARCH = Some arch \<and> 900 \<le> arch \<longrightarrow>
      enable_sm90_or_later CUDA_ARCH Kernel args st = Kernel args st) \<and>
   (CUDA_ARCH = None \<or> (\<exists>arch. CUDA_ARCH = Some arch \<and> arch < 900) \<longrightarrow>
      enable_sm90_or_later CUDA_ARCH Kernel args st = Inr st)"
  by (auto simp: enable_sm90_or_later_def)

theorem enable_sm90_or_later_guard_witness:
  "enable_sm90_or_later (Some 900) counting_kernel () 0 = Inr 1 \<and>
   enable_sm90_or_later (Some 890) counting_kernel () 0 = Inr 0 \<and>
   enable_sm90_or_later None counting_kernel () 0 = Inr 0"
  using enable_sm90_or_later_guard [of "Some 900" 900 counting_kernel "()" 0]
    enable_sm90_or_later_guard [of "Some 890" 890 counting_kernel "()" 0]
    enable_sm90_or_later_guard [of None 0 counting_kernel "()" 0]
  by (simp add: counting_kernel_def)

section \<open>The dispatch entry point\<close>

text \<open>The three ways through \<^verbatim>\<open>cutlass_sparse_gemm_caller\<close>.\<close>

lemma caller_no_arguments:
  assumes "caller_arguments Gemm out a e b epilogue_params = Inl err"
  shows "cutlass_sparse_gemm_caller E Gemm out a e b epilogue_params trace = (Inl err, trace)"
  using assms by (simp add: cutlass_sparse_gemm_caller_def)

lemma caller_rejected:
  assumes "caller_arguments Gemm out a e b epilogue_params = Inr args"
    and "can_implement E args \<noteq> kSuccess"
  shows "cutlass_sparse_gemm_caller E Gemm out a e b epilogue_params trace =
           (Inl (CutlassError (can_implement E args)), trace)"
  using assms by (simp add: cutlass_sparse_gemm_caller_def CUTLASS_CHECK_def)

lemma caller_accepted:
  assumes "caller_arguments Gemm out a e b epilogue_params = Inr args"
    and "can_implement E args = kSuccess"
  shows "cutlass_sparse_gemm_caller E Gemm out a e b epilogue_params trace =
           (CUTLASS_CHECK (run E args (allocator E (get_workspace_size E args) (device a))
                             (getCurrentCUDAStream (device a))),
            trace @ [TorchEmpty (get_workspace_size E args) kUInt8 (device a),
                     GemmRun args (allocator E (get_workspace_size E args) (device a))
                       (getCurrentCUDAStream (device a))])"
  using assms
  by (simp add: cutlass_sparse_gemm_caller_def CUTLASS_CHECK_def Let_def torch_empty_def)

lemma example_caller_arguments:
  "caller_arguments example_gemm example_out example_a example_e example_b example_params
     = Inr example_args"
  by (simp add: caller_arguments_def example_gemm_def example_out_def example_a_def
      example_e_def example_b_def example_params_def example_args_def size_at_def stride_at_def
      bindE_def to_int32_def Let_def ScaledEpilogueBias_def args_from_tensor_def
      ColOrScalarLoad_def RowOrScalarLoad_def ColLoad_def RowLoad_def example_vector_def
      example_scalar_def numel_def)

text \<open>
  Claim C8. The entry point asks the assembled kernel whether the arguments built from
  (M, N, K), the strides and the configuration can be implemented, before anything is
  issued to the device. When the answer is not success the call ends with the error that
  carries that status, and the list of device events is as it was: nothing was allocated
  and no kernel was run. Whenever the call did issue anything, the arguments had passed
  the check.
\<close>

theorem validation_precedes_launch:
  "(caller_arguments Gemm out a e b epilogue_params = Inr args \<and>
      can_implement E args \<noteq> kSuccess \<longrightarrow>
      cutlass_sparse_gemm_caller E Gemm out a e b epilogue_params trace =
        (Inl (CutlassError (can_implement E args)), trace)) \<and>
   (snd (cutlass_sparse_gemm_caller E Gemm out a e b epilogue_params trace) \<noteq> trace \<longrightarrow>
      (\<exists>args. caller_arguments Gemm out a e b epilogue_params = Inr args \<and>
              can_implement E args = kSuccess))"
proof (intro conjI impI)
  assume "caller_arguments Gemm out a e b epilogue_params = Inr args \<and>
      can_implement E args \<noteq> kSuccess"
  then show "cutlass_sparse_gemm_caller E Gemm out a e b epilogue_params trace =
        (Inl (CutlassError (can_implement E args)), trace)"
    by (simp add: caller_rejected)
next
  assume changed:
    "snd (cutlass_sparse_gemm_caller E Gemm out a e b epilogue_params trace) \<noteq> trace"
  show "\<exists>args. caller_arguments Gemm out a e b epilogue_params = Inr args \<and>
              can_implement E args = kSuccess"
  proof (cases "caller_arguments Gemm out a e b epilogue_params")
    case (Inl err)
    with changed show ?thesis by (simp add: caller_no_arguments)
  next
    case (Inr args')
    show ?thesis
    proof (cases "can_implement E args' = kSuccess")
      case True
      with Inr show ?thesis by simp
    next
      case False
      with Inr changed show ?thesis by (simp add: caller_rejected)
    qed
  qed
qed

theorem validation_precedes_launch_witness:
  "cutlass_sparse_gemm_caller rejecting_env example_gemm example_out example_a example_e
      example_b example_params [] = (Inl (CutlassError kErrorInvalidProblem), []) \<and>
   (snd (cutlass_sparse_gemm_caller accepting_env example_gemm example_out example_a example_e
      example_b example_params []) \<noteq> [] \<and>
    (\<exists>args. caller_arguments example_gemm example_out example_a example_e example_b
       example_params = Inr args \<and> can_implement accepting_env args = kSuccess))"
proof -
  have rej: "can_implement rejecting_env example_args = kErrorInvalidProblem"
    by (simp add: rejecting_env_def)
  have acc: "can_implement accepting_env example_args = kSuccess"
    by (simp add: accepting_env_def)
  have changed: "snd (cutlass_sparse_gemm_caller accepting_env example_gemm example_out
      example_a example_e example_b example_params []) \<noteq> []"
    by (simp add: caller_accepted [OF example_caller_arguments acc])
  from validation_precedes_launch [of example_gemm example_out example_a example_e example_b
      example_params example_args rejecting_env "[]"]
    validation_precedes_launch [of example_gemm example_out example_a example_e example_b
      example_params example_args accepting_env "[]"]
    example_caller_arguments rej changed
  show ?thesis by simp
qed

text \<open>
  Claim C3, as stated: the scratch workspace is supplied by the caller, and the core
  never itself allocates device storage during the call. The entry point has no
  workspace parameter; it calls \<^verbatim>\<open>torch::empty\<close> itself. At the concrete input below the
  call makes one allocation, of the 64 bytes the kernel asked for.
\<close>

theorem caller_allocates_workspace_counterexample:
  "allocations (snd (cutlass_sparse_gemm_caller accepting_env example_gemm example_out
      example_a example_e example_b example_params [])) = [TorchEmpty 64 kUInt8 0]"
proof -
  have acc: "can_implement accepting_env example_args = kSuccess"
    by (simp add: accepting_env_def)
  show ?thesis
    unfolding caller_accepted [OF example_caller_arguments acc]
    by (simp add: accepting_env_def allocations_def example_a_def)
qed

text \<open>
  Claim C3, amended. For every call whose arguments pass the implementability check,
  the entry point queries the workspace size from the assembled kernel and itself
  allocates one buffer of bytes of exactly that size on the device of the first operand,
  which it hands to the run of the kernel on that device's current stream; these two are
  the only device events of the call. When the check fails, nothing is allocated.
\<close>

theorem caller_workspace:
  "(caller_arguments Gemm out a e b epilogue_params = Inr args \<and>
      can_implement E args = kSuccess \<longrightarrow>
      snd (cutlass_sparse_gemm_caller E Gemm out a e b epilogue_params trace) =
        trace @ [TorchEmpty (get_workspace_size E args) kUInt8 (device a),
                 GemmRun args (allocator E (get_workspace_size E args) (device a))
                   (getCurrentCUDAStream (device a))]) \<and>
   (caller_arguments Gemm out a e b epilogue_params = Inr args \<and>
      can_implement E args \<noteq> kSuccess \<longrightarrow>
      snd (cutlass_sparse_gemm_caller E Gemm out a e b epilogue_params trace) = trace)"
  by (simp add: caller_accepted caller_rejected)

theorem caller_workspace_witness:
  "snd (cutlass_sparse_gemm_caller accepting_env example_gemm example_out example_a example_e
      example_b example_params []) =
     [TorchEmpty 64 kUInt8 0, GemmRun example_args (Some 5000) (getCurrentCUDAStream 0)] \<and>
   snd (cutlass_sparse_gemm_caller rejecting_env example_gemm example_out example_a example_e
      example_b example_params []) = []"
proof -
  have rej: "can_implement rejecting_env example_args \<noteq> kSuccess"
    by (simp add: rejecting_env_def)
  have acc: "can_implement accepting_env example_args = kSuccess"
    by (simp add: accepting_env_def)
  from caller_workspace [of example_gemm example_out example_a example_e example_b
      example_params example_args accepting_env "[]"]
    caller_workspace [of example_gemm example_out example_a example_e example_b
      example_params example_args rejecting_env "[]"]
    example_caller_arguments rej acc
  show ?thesis by (simp add: accepting_env_def example_a_def)
qed

section \<open>The output of the kernel\<close>

text \<open>
  The value of a tree depends on the memory only through the cells of its operands.
\<close>

lemma visit_depends_on_operand_cells:
  "(\<forall>c \<in> set (operand_cells tree targs m n). load s (fst c) (snd c) = load s' (fst c) (snd c))
     \<Longrightarrow> visit ops s acc m n tree targs = visit ops s' acc m n tree targs"
  "(\<forall>c \<in> set (operand_cells_children ts as m n).
       load s (fst c) (snd c) = load s' (fst c) (snd c))
     \<Longrightarrow> visit_children ops s acc m n ts as = visit_children ops s' acc m n ts as"
proof (induction ops s acc m n tree targs and ops s acc m n ts as
    rule: visit_visit_children.induct)
qed (simp_all add: load_scalar_or_vector_def load_vector_def split: option.splits)

text \<open>
  Two runs of the store loop that compute the same values, on memories that agree
  outside the cells still to be written, end in the same memory.
\<close>

lemma store_elements_agree:
  assumes "\<forall>c \<in> set cs. visit ops s (accum (fst c) (snd c)) (fst c) (snd c) tree targs
             = visit ops s' (accum (fst c) (snd c)) (fst c) (snd c) tree targs"
    and "mem_float r = mem_float r'" and "mem_int32 r = mem_int32 r'"
    and "\<forall>x. x \<notin> written_cells p st cs \<longrightarrow> mem_d r x = mem_d r' x"
  shows "store_elements ops s accum tree targs p st cs r
           = store_elements ops s' accum tree targs p st cs (r' :: ('f, 'd) memory)"
  using assms
proof (induction cs arbitrary: r r')
  case Nil
  then have "mem_d r = mem_d r'" by (auto simp: written_cells_def split: option.splits)
  with Nil show ?case by simp
next
  case (Cons c cs)
  have same: "visit ops s (accum (fst c) (snd c)) (fst c) (snd c) tree targs
      = visit ops s' (accum (fst c) (snd c)) (fst c) (snd c) tree targs"
    using Cons.prems(1) by simp
  show ?case
  proof (cases "visit ops s' (accum (fst c) (snd c)) (fst c) (snd c) tree targs")
    case (Inl err)
    with same show ?thesis by (simp add: bindE_def)
  next
    case (Inr v)
    show ?thesis
    proof (cases p)
      case None
      with same Inr show ?thesis by (simp add: bindE_def)
    next
      case (Some d)
      let ?x = "element_address d st c"
      let ?v = "as_d ops round_to_nearest v"
      have step: "store_elements ops s accum tree targs p st cs
            (r\<lparr>mem_d := (mem_d r)(?x := ?v)\<rparr>)
          = store_elements ops s' accum tree targs p st cs
            (r'\<lparr>mem_d := (mem_d r')(?x := ?v)\<rparr>)"
      proof (rule Cons.IH)
        show "\<forall>c \<in> set cs. visit ops s (accum (fst c) (snd c)) (fst c) (snd c) tree targs
             = visit ops s' (accum (fst c) (snd c)) (fst c) (snd c) tree targs"
          using Cons.prems(1) by simp
        show "mem_float (r\<lparr>mem_d := (mem_d r)(?x := ?v)\<rparr>)
            = mem_float (r'\<lparr>mem_d := (mem_d r')(?x := ?v)\<rparr>)"
          using Cons.prems(2) by simp
        show "mem_int32 (r\<lparr>mem_d := (mem_d r)(?x := ?v)\<rparr>)
            = mem_int32 (r'\<lparr>mem_d := (mem_d r')(?x := ?v)\<rparr>)"
          using Cons.prems(3) by simp
        show "\<forall>x. x \<notin> written_cells p st cs \<longrightarrow>
            mem_d (r\<lparr>mem_d := (mem_d r)(?x := ?v)\<rparr>) x
              = mem_d (r'\<lparr>mem_d := (mem_d r')(?x := ?v)\<rparr>) x"
          using Cons.prems(4) Some by (simp add: written_cells_def)
      qed
      from same Inr Some step show ?thesis by (simp add: bindE_def)
    qed
  qed
qed

lemma GemmUniversal_agree:
  assumes "mem_float s = mem_float s'" and "mem_int32 s = mem_int32 s'"
    and "\<forall>x. x \<notin> output_region args \<longrightarrow> mem_d s x = mem_d s' x"
    and "\<forall>c \<in> set (output_coordinates args).
           \<forall>x. (ElementD, x) \<in> set (operand_cells (EVTCompute (Gemm_Epilogue Gemm))
                   (thread (epilogue_args args)) (fst c) (snd c))
             \<longrightarrow> mem_d s x = mem_d s' x"
  shows "GemmUniversal ops accum Gemm args s
           = GemmUniversal ops accum Gemm args (s' :: ('f, 'd) memory)"
  unfolding GemmUniversal_def
proof (rule store_elements_agree)
  show "\<forall>c \<in> set (output_coordinates args).
      visit ops s (accum (fst c) (snd c)) (fst c) (snd c) (EVTCompute (Gemm_Epilogue Gemm))
        (thread (epilogue_args args))
      = visit ops s' (accum (fst c) (snd c)) (fst c) (snd c) (EVTCompute (Gemm_Epilogue Gemm))
        (thread (epilogue_args args))"
  proof
    fix c assume c: "c \<in> set (output_coordinates args)"
    show "visit ops s (accum (fst c) (snd c)) (fst c) (snd c)
        (EVTCompute (Gemm_Epilogue Gemm)) (thread (epilogue_args args))
      = visit ops s' (accum (fst c) (snd c)) (fst c) (snd c)
        (EVTCompute (Gemm_Epilogue Gemm)) (thread (epilogue_args args))"
    proof (rule visit_depends_on_operand_cells(1), rule ballI)
      fix tc assume tc: "tc \<in> set (operand_cells (EVTCompute (Gemm_Epilogue Gemm))
          (thread (epilogue_args args)) (fst c) (snd c))"
      obtain T x where eq: "tc = (T, x)" by (cases tc)
      show "load s (fst tc) (snd tc) = load s' (fst tc) (snd tc)"
      proof (cases T)
        case float
        with eq assms(1) show ?thesis by simp
      next
        case int32_t
        with eq assms(2) show ?thesis by simp
      next
        case ElementD
        with eq tc c assms(4) show ?thesis by auto
      qed
    qed
  qed
  show "mem_float s = mem_float s'" by (rule assms(1))
  show "mem_int32 s = mem_int32 s'" by (rule assms(2))
  show "\<forall>x. x \<notin> written_cells (ptr_D (epilogue_args args)) (dD (epilogue_args args))
        (output_coordinates args) \<longrightarrow> mem_d s x = mem_d s' x"
    using assms(3) by (simp add: output_region_def)
qed

lemma caller_arguments_output:
  assumes "caller_arguments Gemm out a e b epilogue_params = Inr args"
  shows "ptr_C (epilogue_args args) = data_ptr out \<and> ptr_D (epilogue_args args) = data_ptr out"
  using assms
  by (auto simp: caller_arguments_def bindE_def Let_def split: sum.splits)

lemma example_output_coordinates:
  "output_coordinates example_args = [(0, 0), (0, 1), (1, 0), (1, 1)]"
  by (simp add: output_coordinates_def example_args_def upt_rec)

lemma example_output_region: "output_region example_args = {0, 1, 2, 3}"
  unfolding output_region_def written_cells_def example_output_coordinates
  by (auto simp: example_args_def element_address_def)

text \<open>
  Claim C10. The output is a pure overwrite. No instance of the kernel has a source
  operand C (\<^verbatim>\<open>ElementC\<close> is \<^verbatim>\<open>void\<close>), and the entry point passes the pointer of the
  output tensor both as C and as D. Take two runs of the kernel, compiled for
  architecture 900 or later, on the arguments the entry point builds, from two memories
  that hold the same auxiliary operands and differ at most in the cells of the output
  tensor: the two runs end in the same memory (or in the same error), so what the output
  tensor held before is not part of what it holds afterwards.
\<close>

theorem output_is_pure_overwrite:
  assumes "caller_arguments Gemm out a e b epilogue_params = Inr args"
    and "CUDA_ARCH = Some arch" and "900 \<le> arch"
    and "mem_float s = mem_float s'" and "mem_int32 s = mem_int32 s'"
    and "\<forall>x. x \<notin> output_region args \<longrightarrow> mem_d s x = mem_d s' x"
    and "\<forall>c \<in> set (output_coordinates args).
           \<forall>x. (ElementD, x) \<in> set (operand_cells (EVTCompute (Gemm_Epilogue Gemm))
                   (thread (epilogue_args args)) (fst c) (snd c))
             \<longrightarrow> mem_d s x = mem_d s' x"
  shows "GemmKernel ops accum CUDA_ARCH Gemm args s
           = GemmKernel ops accum CUDA_ARCH Gemm args (s' :: ('f, 'd) memory) \<and>
         Gemm_ElementC Gemm = None \<and>
         ptr_C (epilogue_args args) = data_ptr out \<and>
         ptr_D (epilogue_args args) = data_ptr out"
  using GemmUniversal_agree [OF assms(4,5,6,7)] caller_arguments_output [OF assms(1)]
    assms(2,3)
  by (simp add: GemmKernel_def enable_sm90_or_later_def Gemm_ElementC_def)

theorem output_is_pure_overwrite_witness:
  "GemmKernel integer_numerics example_accum (Some 900) example_gemm example_args example_memory
     = GemmKernel integer_numerics example_accum (Some 900) example_gemm example_args
         example_overwritten_memory \<and>
   ptr_C (epilogue_args example_args) = data_ptr example_out"
proof -
  have f: "mem_float example_memory = mem_float example_overwritten_memory"
    and i: "mem_int32 example_memory = mem_int32 example_overwritten_memory"
    by (simp_all add: example_overwritten_memory_def)
  have outside: "\<forall>x. x \<notin> output_region example_args \<longrightarrow>
      mem_d example_memory x = mem_d example_overwritten_memory x"
    by (auto simp: example_output_region example_overwritten_memory_def example_memory_def)
  have cells: "\<forall>c \<in> set (output_coordinates example_args).
      \<forall>x. (ElementD, x) \<in> set (operand_cells (EVTCompute (Gemm_Epilogue example_gemm))
               (thread (epilogue_args example_args)) (fst c) (snd c))
        \<longrightarrow> mem_d example_memory x = mem_d example_overwritten_memory x"
    by (simp add: example_output_coordinates example_gemm_def EVTCompute_ScaledEpilogueBias
        example_args_def crd2idx_def example_overwritten_memory_def example_memory_def)
  from output_is_pure_overwrite [OF example_caller_arguments refl _ f i outside cells,
      of 900 integer_numerics example_accum]
  show ?thesis by simp
qed

section \<open>The bias operand\<close>

lemma example_caller_arguments_null_bias:
  "caller_arguments example_gemm example_out example_a example_e example_b
     example_params_null_bias = Inr example_args_null_bias"
  by (simp add: caller_arguments_def example_gemm_def example_out_def example_a_def
      example_e_def example_b_def example_params_null_bias_def example_args_null_bias_def
      example_args_def size_at_def stride_at_def bindE_def to_int32_def Let_def
      ScaledEpilogueBias_def args_from_tensor_def ColOrScalarLoad_def RowOrScalarLoad_def
      ColLoad_def RowLoad_def example_vector_def example_scalar_def example_null_tensor_def
      numel_def)

text \<open>
  Claim C9, as stated: \<^verbatim>\<open>ScaledEpilogueBias\<close> requires a bias tensor and rejects a null
  one. Its \<^verbatim>\<open>prepare_args\<close> makes no check: for a bias tensor whose data pointer is null
  it succeeds and binds the null pointer, and the entry point, called with that bias,
  passes the implementability check, runs the kernel and returns success.
\<close>

theorem ScaledEpilogueBias_null_bias_counterexample:
  "prepare_args ScaledEpilogueBias
      (example_vector 100 2, example_scalar 200, example_null_tensor) =
     Inr (EVTArgs [BroadcastArgs (Some 100) True,
                   EVTArgs [BroadcastArgs (Some 200) False],
                   VecArgs None]) \<and>
   cutlass_sparse_gemm_caller accepting_env example_gemm example_out example_a example_e
      example_b example_params_null_bias [] =
     (Inr (), [TorchEmpty 64 kUInt8 0,
               GemmRun example_args_null_bias (Some 5000) (getCurrentCUDAStream 0)])"
proof -
  have acc: "can_implement accepting_env example_args_null_bias = kSuccess"
    by (simp add: accepting_env_def)
  have prep: "prepare_args ScaledEpilogueBias
      (example_vector 100 2, example_scalar 200, example_null_tensor) =
     Inr (EVTArgs [BroadcastArgs (Some 100) True,
                   EVTArgs [BroadcastArgs (Some 200) False],
                   VecArgs None])"
    by (simp add: prepare_args_ScaledEpilogueBias example_vector_def example_scalar_def
        example_null_tensor_def numel_def)
  have call: "cutlass_sparse_gemm_caller accepting_env example_gemm example_out example_a
      example_e example_b example_params_null_bias [] =
     (Inr (), [TorchEmpty 64 kUInt8 0,
               GemmRun example_args_null_bias (Some 5000) (getCurrentCUDAStream 0)])"
    unfolding caller_accepted [OF example_caller_arguments_null_bias acc]
    by (simp add: accepting_env_def CUTLASS_CHECK_def example_a_def)
  from prep call show ?thesis by simp
qed

text \<open>
  Claim C9, amended. The bias is optional for the two zero-point epilogues: with an
  absent bias they bind a null pointer, and the bias term of every output element is the
  constant zero. \<^verbatim>\<open>ScaledEpilogueBias\<close> takes a bias tensor, not an optional one, and
  binds the data pointer of that tensor as it is, to a row load without
  \<^verbatim>\<open>EnableNullPtr\<close>; it makes no check of the pointer.
\<close>

theorem bias_optional_or_bound_as_given:
  assumes "data_ptr a_scales = Some pa" and "data_ptr b_scales = Some pb"
    and "data_ptr azp_adj = Some padj" and "data_ptr azp = Some pz"
  shows
   "prepare_args ScaledEpilogueBiasAzp (a_scales, b_scales, azp_adj, None) =
      Inr (EVTArgs [BroadcastArgs (Some pa) (numel a_scales \<noteq> 1),
                    EVTArgs [BroadcastArgs (Some pb) (numel b_scales \<noteq> 1),
                             EVTArgs [NoArgs, VecArgs (Some padj)]],
                    VecArgs None]) \<and>
    prepare_args ScaledEpilogueBiasAzpToken (a_scales, b_scales, azp_adj, azp, None) =
      Inr (EVTArgs [BroadcastArgs (Some pa) (numel a_scales \<noteq> 1),
                    EVTArgs [BroadcastArgs (Some pb) (numel b_scales \<noteq> 1),
                             EVTArgs [NoArgs, EVTArgs [VecArgs (Some pz), VecArgs (Some padj)]]],
                    VecArgs None]) \<and>
    epilogue_output ops ScaledEpilogueBiasAzp (a_scales, b_scales, azp_adj, None) mem acc i j =
      Inr (VElementD (spec_ScaleBiasZP_PerTensor ops
        (scalar_or_vector_at (mem_float mem) a_scales pa i)
        (scalar_or_vector_at (mem_float mem) b_scales pb j) acc
        (vector_at (mem_int32 mem) padj j) (d_zero ops))) \<and>
    epilogue_output ops ScaledEpilogueBiasAzpToken (a_scales, b_scales, azp_adj, azp, None)
        mem acc i j =
      Inr (VElementD (spec_ScaleBiasZP_PerToken ops
        (scalar_or_vector_at (mem_float mem) a_scales pa i)
        (scalar_or_vector_at (mem_float mem) b_scales pb j) acc
        (vector_at (mem_int32 mem) pz i) (vector_at (mem_int32 mem) padj j) (d_zero ops))) \<and>
    EVTCompute ScaledEpilogueBias =
      Sm90EVT (Sm90Compute cutlass_multiply_add ElementD float round_to_nearest)
        [ColOrScalarLoad float,
         Sm90EVT (Sm90Compute cutlass_multiplies float float round_to_nearest)
           [RowOrScalarLoad float, Sm90AccFetch],
         RowLoad ElementD False] \<and>
    prepare_args ScaledEpilogueBias (a_scales, b_scales, bias) =
      Inr (EVTArgs [BroadcastArgs (Some pa) (numel a_scales \<noteq> 1),
                    EVTArgs [BroadcastArgs (Some pb) (numel b_scales \<noteq> 1)],
                    VecArgs (data_ptr bias)])"
proof (intro conjI)
  show "prepare_args ScaledEpilogueBiasAzp (a_scales, b_scales, azp_adj, None) =
      Inr (EVTArgs [BroadcastArgs (Some pa) (numel a_scales \<noteq> 1),
                    EVTArgs [BroadcastArgs (Some pb) (numel b_scales \<noteq> 1),
                             EVTArgs [NoArgs, VecArgs (Some padj)]],
                    VecArgs None])"
    by (simp add: prepare_args_ScaledEpilogueBiasAzp assms)
  show "prepare_args ScaledEpilogueBiasAzpToken (a_scales, b_scales, azp_adj, azp, None) =
      Inr (EVTArgs [BroadcastArgs (Some pa) (numel a_scales \<noteq> 1),
                    EVTArgs [BroadcastArgs (Some pb) (numel b_scales \<noteq> 1),
                             EVTArgs [NoArgs, EVTArgs [VecArgs (Some pz), VecArgs (Some padj)]]],
                    VecArgs None])"
    by (simp add: prepare_args_ScaledEpilogueBiasAzpToken assms)
  show "epilogue_output ops ScaledEpilogueBiasAzp (a_scales, b_scales, azp_adj, None) mem acc i j =
      Inr (VElementD (spec_ScaleBiasZP_PerTensor ops
        (scalar_or_vector_at (mem_float mem) a_scales pa i)
        (scalar_or_vector_at (mem_float mem) b_scales pb j) acc
        (vector_at (mem_int32 mem) padj j) (d_zero ops)))"
    by (simp add: ScaledEpilogueBiasAzp_value [OF assms(1,2,3)] spec_ScaleBiasZP_PerTensor_def
        scalar_or_vector_at_def vector_at_def optional_bias_at_def)
  show "epilogue_output ops ScaledEpilogueBiasAzpToken (a_scales, b_scales, azp_adj, azp, None)
        mem acc i j =
      Inr (VElementD (spec_ScaleBiasZP_PerToken ops
        (scalar_or_vector_at (mem_float mem) a_scales pa i)
        (scalar_or_vector_at (mem_float mem) b_scales pb j) acc
        (vector_at (mem_int32 mem) pz i) (vector_at (mem_int32 mem) padj j) (d_zero ops)))"
    by (simp add: ScaledEpilogueBiasAzpToken_value [OF assms(1,2,3,4)]
        spec_ScaleBiasZP_PerToken_def scalar_or_vector_at_def vector_at_def
        optional_bias_at_def)
  show "EVTCompute ScaledEpilogueBias =
      Sm90EVT (Sm90Compute cutlass_multiply_add ElementD float round_to_nearest)
        [ColOrScalarLoad float,
         Sm90EVT (Sm90Compute cutlass_multiplies float float round_to_nearest)
           [RowOrScalarLoad float, Sm90AccFetch],
         RowLoad ElementD False]"
    by (simp add: ScaledEpilogueBias_def Let_def)
  show "prepare_args ScaledEpilogueBias (a_scales, b_scales, bias) =
      Inr (EVTArgs [BroadcastArgs (Some pa) (numel a_scales \<noteq> 1),
                    EVTArgs [BroadcastArgs (Some pb) (numel b_scales \<noteq> 1)],
                    VecArgs (data_ptr bias)])"
    by (simp add: prepare_args_ScaledEpilogueBias assms)
qed

theorem bias_optional_or_bound_as_given_witness:
  "prepare_args ScaledEpilogueBiasAzp
      (example_vector 100 4, example_scalar 200, example_vector 400 4, None) =
      Inr (EVTArgs [BroadcastArgs (Some 100) True,
                    EVTArgs [BroadcastArgs (Some 200) False,
                             EVTArgs [NoArgs, VecArgs (Some 400)]],
                    VecArgs None]) \<and>
   epilogue_output integer_numerics ScaledEpilogueBiasAzp
      (example_vector 100 4, example_scalar 200, example_vector 400 4, None)
      example_memory (VInt32 5) 2 3 = Inr (VElementD (- 8119200)) \<and>
   epilogue_output integer_numerics ScaledEpilogueBiasAzpToken
      (example_vector 100 4, example_scalar 200, example_vector 400 4, example_vector 300 4, None)
      example_memory (VInt32 5) 2 3 = Inr (VElementD (- 57446400)) \<and>
   prepare_args ScaledEpilogueBias
      (example_vector 100 4, example_scalar 200, example_vector 50 4) =
      Inr (EVTArgs [BroadcastArgs (Some 100) True,
                    EVTArgs [BroadcastArgs (Some 200) False],
                    VecArgs (Some 50)])"
proof -
  have p: "data_ptr (example_vector 100 4) = Some 100" "data_ptr (example_scalar 200) = Some 200"
    "data_ptr (example_vector 400 4) = Some 400" "data_ptr (example_vector 300 4) = Some 300"
    by (simp_all add: example_vector_def example_scalar_def)
  from bias_optional_or_bound_as_given [OF p, of integer_numerics example_memory "VInt32 5" 2 3
      "example_vector 50 4"]
  show ?thesis
    by (simp add: example_defs spec_ScaleBiasZP_PerTensor_def spec_ScaleBiasZP_PerToken_def
        scalar_or_vector_at_def vector_at_def)
qed

end
